theory Spec2Isabelle
  imports Complex_Main "HOL-Library.AList" "HOL-Library.Multiset" "HOL-Library.Product_Lexorder"
begin

section \<open>The storage: tables of the schema\<close>

text \<open>
  The feed controller talks to a MySQL database through \<^verbatim>\<open>db.query\<close>. The tables are
  modelled as lists of rows in storage order, the two SQL enumerations as datatypes, a
  TIMESTAMP as an integer, a nullable column as an option. Row fields carry the alias the
  controller's queries give the table (\<^verbatim>\<open>u.\<close>, \<^verbatim>\<open>p.\<close>, \<^verbatim>\<open>c.\<close>; \<^verbatim>\<open>l_\<close> for Likes).
  SQL string equality is modelled as equality of the strings.
\<close>

datatype polLean = FL | L | SL | M | SR | R | FR

datatype entityType = POST | COMMENT

record user_row =
  u_username :: string
  u_firstName :: string
  u_lastName :: string
  u_email :: string
  u_passHash :: string
  u_polLean :: polLean
  u_accVerify :: bool
  u_dateCreate :: int

record post_row =
  p_postID :: int
  p_username :: string
  p_title :: string
  p_body :: string
  p_sources :: "string option"
  p_datePosted :: int

text \<open>
  Modelled from the spec: the Comments table that the controller's queries read, with the
  columns \<^verbatim>\<open>postID\<close> and \<^verbatim>\<open>parentCommentID\<close>, is not declared in the repository's SQL
  (the table declared there has \<^verbatim>\<open>entityType\<close> and \<^verbatim>\<open>entityID\<close> instead). The row has
  the fields of the spec's Comment that the controller selects; both parent columns are
  nullable, as the controller's WHERE clauses and its insert call use them.
\<close>

record comment_row =
  c_commentID :: int
  c_postID :: "int option"
  c_parentCommentID :: "int option"
  c_username :: string
  c_body :: string
  c_datePosted :: int

record like_row =
  l_likeID :: int
  l_username :: string
  l_entityType :: entityType
  l_entityID :: int
  l_polLean :: polLean
  l_dateLiked :: int

text \<open>\<^verbatim>\<open>nextLikeID\<close> is the AUTO_INCREMENT counter of the Likes table.\<close>

record db =
  Users :: "user_row list"
  PostsData :: "post_row list"
  Comments :: "comment_row list"
  Likes :: "like_row list"
  nextLikeID :: int

text \<open>Every \<^verbatim>\<open>db.query\<close> of the feed controller, with its parameters, as a log entry.\<close>

datatype post_order = ByBalanced | ByControversial | ByRight | ByLeft | ByModerate | ByRecent

datatype comment_order = CByControversial | CByBalanced | CByOldest | CByRecent

datatype storage_call =
    SelectUserPolLean string
  | SelectPostExists int
  | SelectCommentExists int
  | CallInsertLike string entityType int polLean
  | DeleteLike string entityType int
  | SelectLikeCounts entityType int
  | SelectPostsPage post_order int int
  | SelectCountPosts
  | SelectPostById int
  | SelectCommentsOfPost int
  | SelectCommentsPage int "int option" comment_order int int
  | SelectCountComments int "int option"
  | CallInsertComment "int option" string "int option" string
  | SelectLastInsertId

text \<open>A response: \<^verbatim>\<open>res.status(code).json(...)\<close>, a failure with its message or a success
  with its payload (\<^verbatim>\<open>res.json\<close> alone is status 200).\<close>

datatype 'a reply = Failure nat string | Success nat 'a

section \<open>The like aggregation\<close>

text \<open>
  A JavaScript object with string keys, in insertion order: an association list.
  Assigning to a key replaces the value in place or appends the key.
\<close>

type_synonym js_object = "(string \<times> int) list"

fun polLean_str :: "polLean \<Rightarrow> string" where
  "polLean_str FL = ''FL''"
| "polLean_str L = ''L''"
| "polLean_str SL = ''SL''"
| "polLean_str M = ''M''"
| "polLean_str SR = ''SR''"
| "polLean_str R = ''R''"
| "polLean_str FR = ''FR''"

definition allPolLean :: "polLean list" where
  "allPolLean = [FL, L, SL, M, SR, R, FR]"

definition leaningKeys :: "string list" where
  "leaningKeys = [''FL'', ''L'', ''SL'', ''M'', ''SR'', ''R'', ''FR'']"

text \<open>The rows of Likes of one entity, and those of one leaning among them.\<close>

definition likesOfEntity :: "like_row list \<Rightarrow> entityType \<Rightarrow> int \<Rightarrow> like_row list" where
  "likesOfEntity ls t e = filter (\<lambda>l. l_entityType l = t \<and> l_entityID l = e) ls"

definition countLean :: "like_row list \<Rightarrow> entityType \<Rightarrow> int \<Rightarrow> polLean \<Rightarrow> int" where
  "countLean ls t e p = int (length (filter (\<lambda>l. l_polLean l = p) (likesOfEntity ls t e)))"

text \<open>
  \<^verbatim>\<open>SELECT polLean, COUNT(*) as count FROM Likes WHERE entityType = ? AND entityID = ?
  GROUP BY polLean\<close>: one row for each leaning that has a like, none for the others.
\<close>

definition selectLikeCounts :: "like_row list \<Rightarrow> entityType \<Rightarrow> int \<Rightarrow> (string \<times> int) list" where
  "selectLikeCounts ls t e =
     map (\<lambda>p. (polLean_str p, countLean ls t e p))
       (filter (\<lambda>p. countLean ls t e p \<noteq> 0) allPolLean)"

text \<open>
  \<^verbatim>\<open>likes = {'FL': 0, 'L': 0, 'SL': 0, 'M': 0, 'SR': 0, 'R': 0, 'FR': 0};
  likeCounts.forEach(like => { likes[like.polLean] = like.count; });\<close>
\<close>

definition likes_init :: js_object where
  "likes_init = [(''FL'', 0), (''L'', 0), (''SL'', 0), (''M'', 0), (''SR'', 0), (''R'', 0), (''FR'', 0)]"

definition fillCounts :: "(string \<times> int) list \<Rightarrow> js_object \<Rightarrow> js_object" where
  "fillCounts rows obj = fold (\<lambda>like likes. AList.update (fst like) (snd like) likes) rows obj"

definition likeDistribution :: "like_row list \<Rightarrow> entityType \<Rightarrow> int \<Rightarrow> js_object" where
  "likeDistribution ls t e = fillCounts (selectLikeCounts ls t e) likes_init"

section \<open>The like mutation service\<close>

text \<open>An error thrown by a query: the message of a SIGNAL of a stored procedure, a
  foreign key or a NOT NULL constraint that fails, a column name the query cannot
  resolve, a value that cannot be converted to the type of a parameter.\<close>

datatype sql_error =
    Signalled string
  | ForeignKeyFails
  | NotNullFails
  | UnknownColumn string
  | IncorrectValue

text \<open>The stored procedure \<^verbatim>\<open>insertLike\<close> (its IN parameters \<^verbatim>\<open>p_...\<close> are \<^verbatim>\<open>in_...\<close>
  here), with the foreign key of Likes on Users.\<close>

definition likeExists :: "like_row list \<Rightarrow> string \<Rightarrow> entityType \<Rightarrow> int \<Rightarrow> bool" where
  "likeExists ls u t e =
     (\<exists>l \<in> set ls. l_username l = u \<and> l_entityType l = t \<and> l_entityID l = e)"

definition insertLike :: "db \<Rightarrow> int \<Rightarrow> string \<Rightarrow> entityType \<Rightarrow> int \<Rightarrow> polLean \<Rightarrow> sql_error + (string \<times> db)" where
  "insertLike d now in_username in_entityType in_entityID in_polLean =
     (if likeExists (Likes d) in_username in_entityType in_entityID
      then Inl (Signalled ''Like Already Exists'')
      else if in_username \<notin> set (map u_username (Users d)) then Inl ForeignKeyFails
      else Inr (''Like Added'',
             d\<lparr>Likes := Likes d @
                  [\<lparr>l_likeID = nextLikeID d, l_username = in_username,
                    l_entityType = in_entityType, l_entityID = in_entityID,
                    l_polLean = in_polLean, l_dateLiked = now\<rparr>],
               nextLikeID := nextLikeID d + 1\<rparr>))"

text \<open>\<^verbatim>\<open>DELETE FROM Likes WHERE username = ? AND entityType = ? AND entityID = ?\<close>:
  the rows left and \<^verbatim>\<open>affectedRows\<close>.\<close>

definition deleteLike :: "db \<Rightarrow> string \<Rightarrow> entityType \<Rightarrow> int \<Rightarrow> db \<times> nat" where
  "deleteLike d u t e =
     (d\<lparr>Likes := filter (\<lambda>l. \<not> (l_username l = u \<and> l_entityType l = t \<and> l_entityID l = e)) (Likes d)\<rparr>,
      length (filter (\<lambda>l. l_username l = u \<and> l_entityType l = t \<and> l_entityID l = e) (Likes d)))"

text \<open>\<^verbatim>\<open>['POST', 'COMMENT'].includes(entityType)\<close>, and the enumeration value the string
  denotes in the queries that follow.\<close>

definition entityType_of :: "string \<Rightarrow> entityType option" where
  "entityType_of s = (if s = ''POST'' then Some POST else if s = ''COMMENT'' then Some COMMENT else None)"

definition postExists :: "db \<Rightarrow> int \<Rightarrow> bool" where
  "postExists d i = (filter (\<lambda>p. p_postID p = i) (PostsData d) \<noteq> [])"

definition commentExists :: "db \<Rightarrow> int \<Rightarrow> bool" where
  "commentExists d i = (filter (\<lambda>c. c_commentID c = i) (Comments d) \<noteq> [])"

text \<open>
  \<^verbatim>\<open>exports.addLike\<close>. The result is the response, the queries issued in order, and the
  storage after the request. \<^verbatim>\<open>now\<close> is the CURRENT_TIMESTAMP of the insert. The
  procedure returns no row other than 'Like Added', so the handler's path that sends no
  response (another message) does not arise.
\<close>

definition addLike :: "db \<Rightarrow> int \<Rightarrow> string \<Rightarrow> string \<Rightarrow> int \<Rightarrow> js_object reply \<times> storage_call list \<times> db" where
  "addLike d now username entityType entityID =
     (case filter (\<lambda>u. u_username u = username) (Users d) of
        [] \<Rightarrow> (Failure 404 ''User not found'', [SelectUserPolLean username], d)
      | user # _ \<Rightarrow>
         (let userPolLean = u_polLean user in
          case entityType_of entityType of
            None \<Rightarrow> (Failure 400 ''Entity type must be either POST or COMMENT'',
                      [SelectUserPolLean username], d)
          | Some t \<Rightarrow>
             (let entityExists = (if t = POST then postExists d entityID else commentExists d entityID);
                  check = (if t = POST then SelectPostExists entityID else SelectCommentExists entityID)
              in if \<not> entityExists
                 then (Failure 404 ((if t = POST then ''post'' else ''comment'') @ '' not found''),
                       [SelectUserPolLean username, check], d)
                 else
                   (case insertLike d now username t entityID userPolLean of
                      Inl err \<Rightarrow>
                        (if err = Signalled ''Like Already Exists''
                         then (Failure 409 ''You have already liked this item'',
                               [SelectUserPolLean username, check,
                                CallInsertLike username t entityID userPolLean], d)
                         else (Failure 500 ''Server error while adding like'',
                               [SelectUserPolLean username, check,
                                CallInsertLike username t entityID userPolLean], d))
                    | Inr (message, d') \<Rightarrow>
                        (Success 201 (likeDistribution (Likes d') t entityID),
                         [SelectUserPolLean username, check,
                          CallInsertLike username t entityID userPolLean,
                          SelectLikeCounts t entityID], d')))))"

text \<open>\<^verbatim>\<open>exports.removeLike\<close>.\<close>

definition removeLike :: "db \<Rightarrow> string \<Rightarrow> string \<Rightarrow> int \<Rightarrow> js_object reply \<times> storage_call list \<times> db" where
  "removeLike d username entityType entityID =
     (case entityType_of entityType of
        None \<Rightarrow> (Failure 400 ''Entity type must be either POST or COMMENT'', [], d)
      | Some t \<Rightarrow>
         (let (d', affectedRows) = deleteLike d username t entityID in
          if affectedRows = 0
          then (Failure 404 ''Like not found'', [DeleteLike username t entityID], d')
          else (Success 200 (likeDistribution (Likes d') t entityID),
                [DeleteLike username t entityID, SelectLikeCounts t entityID], d')))"

section \<open>JavaScript values\<close>

text \<open>
  A query parameter read with \<^verbatim>\<open>parseInt\<close> is an integer or NaN (\<open>None\<close>); a string
  parameter is a string or undefined (\<open>None\<close>). \<^verbatim>\<open>x || d\<close> is \<open>d\<close> when \<open>x\<close> is NaN, 0,
  undefined, null or the empty string.
\<close>

definition js_or_int :: "int option \<Rightarrow> int \<Rightarrow> int" where
  "js_or_int x d = (case x of None \<Rightarrow> d | Some n \<Rightarrow> if n = 0 then d else n)"

definition js_or_str :: "string option \<Rightarrow> string \<Rightarrow> string" where
  "js_or_str x d = (case x of None \<Rightarrow> d | Some s \<Rightarrow> if s = [] then d else s)"

text \<open>\<^verbatim>\<open>x || null\<close> on a numeric field of the request body.\<close>

definition js_or_null :: "int option \<Rightarrow> int option" where
  "js_or_null x = (case x of None \<Rightarrow> None | Some n \<Rightarrow> if n = 0 then None else Some n)"

text \<open>Reading a property: the value, or undefined (\<open>None\<close>). In arithmetic undefined
  gives NaN, which is \<open>None\<close> as well.\<close>

definition js_prop :: "js_object \<Rightarrow> string \<Rightarrow> int option" where
  "js_prop obj k = map_of obj k"

definition js_add :: "int option \<Rightarrow> int option \<Rightarrow> int option" where
  "js_add a b = (case a of None \<Rightarrow> None | Some x \<Rightarrow> (case b of None \<Rightarrow> None | Some y \<Rightarrow> Some (x + y)))"

definition js_sub :: "int option \<Rightarrow> int option \<Rightarrow> int option" where
  "js_sub a b = (case a of None \<Rightarrow> None | Some x \<Rightarrow> (case b of None \<Rightarrow> None | Some y \<Rightarrow> Some (x - y)))"

definition js_abs :: "int option \<Rightarrow> int option" where
  "js_abs a = (case a of None \<Rightarrow> None | Some x \<Rightarrow> Some \<bar>x\<bar>)"

text \<open>\<^verbatim>\<open>Object.values(obj).reduce((sum, count) => sum + count, 0)\<close>.\<close>

definition sumValues :: "js_object \<Rightarrow> int" where
  "sumValues obj = foldl (\<lambda>sum count. sum + count) 0 (map snd obj)"

text \<open>\<^verbatim>\<open>Math.ceil(a / b)\<close> for integers \<open>a\<close> and \<open>b \<noteq> 0\<close> (exact as long as the
  quotient is exact in a double).\<close>

definition js_ceil_div :: "int \<Rightarrow> int \<Rightarrow> int" where
  "js_ceil_div a b = - ((- a) div b)"

section \<open>Listing posts\<close>

text \<open>The COUNT subqueries of the ORDER BY clauses: the likes of an entity whose leaning
  is in a list, and all its likes.\<close>

definition countLeans :: "like_row list \<Rightarrow> entityType \<Rightarrow> int \<Rightarrow> polLean list \<Rightarrow> int" where
  "countLeans ls t e ps = int (length (filter (\<lambda>l. l_polLean l \<in> set ps) (likesOfEntity ls t e)))"

definition countAll :: "like_row list \<Rightarrow> entityType \<Rightarrow> int \<Rightarrow> int" where
  "countAll ls t e = int (length (likesOfEntity ls t e))"

text \<open>\<^verbatim>\<open>FROM t JOIN Users u ON t.username = u.username\<close>.\<close>

definition joinUsers :: "('r \<Rightarrow> string) \<Rightarrow> 'r list \<Rightarrow> user_row list \<Rightarrow> ('r \<times> user_row) list" where
  "joinUsers uname rows users =
     concat (map (\<lambda>r. map (\<lambda>u. (r, u)) (filter (\<lambda>u. uname r = u_username u) users)) rows)"

text \<open>The \<^verbatim>\<open>switch (sortBy)\<close> of \<^verbatim>\<open>getPosts\<close>.\<close>

definition postOrderOf :: "string \<Rightarrow> post_order" where
  "postOrderOf sortBy =
     (if sortBy = ''balanced'' then ByBalanced
      else if sortBy = ''controversial'' then ByControversial
      else if sortBy = ''right'' then ByRight
      else if sortBy = ''left'' then ByLeft
      else if sortBy = ''moderate'' then ByModerate
      else ByRecent)"

text \<open>
  The ORDER BY clause as a sort key, ascending in the lexicographic order of pairs: a
  DESC column is negated.
\<close>

fun postSortKey :: "db \<Rightarrow> post_order \<Rightarrow> post_row \<times> user_row \<Rightarrow> int \<times> int" where
  "postSortKey d ByBalanced (p, u) =
     (\<bar>countLeans (Likes d) POST (p_postID p) [FR, R, SR]
        - countLeans (Likes d) POST (p_postID p) [FL, L, SL]\<bar>, - p_datePosted p)"
| "postSortKey d ByControversial (p, u) = (- countAll (Likes d) POST (p_postID p), - p_datePosted p)"
| "postSortKey d ByRight (p, u) =
     (- countLeans (Likes d) POST (p_postID p) [FR, R, SR], - p_datePosted p)"
| "postSortKey d ByLeft (p, u) =
     (- countLeans (Likes d) POST (p_postID p) [FL, L, SL], - p_datePosted p)"
| "postSortKey d ByModerate (p, u) = (- countLeans (Likes d) POST (p_postID p) [M], - p_datePosted p)"
| "postSortKey d ByRecent (p, u) = (- p_datePosted p, 0)"

text \<open>
  SQL leaves the order of rows with equal ORDER BY keys open, and the engine may settle
  it differently in every query. That choice is a parameter of every ordered query: a
  rank \<open>tie\<close> that the engine gives the rows, which orders the rows the ORDER BY clause
  does not tell apart.
\<close>

definition orderedPosts :: "(post_row \<times> user_row \<Rightarrow> nat) \<Rightarrow> db \<Rightarrow> post_order \<Rightarrow> (post_row \<times> user_row) list" where
  "orderedPosts tie d order =
     sort_key (\<lambda>row. (postSortKey d order row, tie row))
       (joinUsers p_username (PostsData d) (Users d))"

text \<open>\<^verbatim>\<open>... ORDER BY ${orderClause} LIMIT ? OFFSET ?\<close>, for a limit and an offset that are
  not negative.\<close>

definition selectPostsPage :: "(post_row \<times> user_row \<Rightarrow> nat) \<Rightarrow> db \<Rightarrow> post_order \<Rightarrow> int \<Rightarrow> int \<Rightarrow> (post_row \<times> user_row) list" where
  "selectPostsPage tie d order limit offset =
     take (nat limit) (drop (nat offset) (orderedPosts tie d order))"

record post_view =
  pv_postID :: int
  pv_title :: string
  pv_body :: string
  pv_sources :: "string option"
  pv_datePosted :: int
  pv_username :: string
  pv_firstName :: string
  pv_lastName :: string
  pv_polLean :: polLean
  pv_commentCount :: int
  pv_likes :: js_object
  pv_totalLikes :: int
  pv_rightLikes :: "int option"
  pv_leftLikes :: "int option"
  pv_moderateLikes :: "int option"
  pv_polarizationScore :: "int option"

text \<open>One row of the page with the fields the loop of \<^verbatim>\<open>getPosts\<close> adds to it.\<close>

definition postView :: "db \<Rightarrow> post_row \<times> user_row \<Rightarrow> post_view" where
  "postView d row =
     (let p = fst row; u = snd row;
          likes = likeDistribution (Likes d) POST (p_postID p);
          totalLikes = sumValues likes;
          rightLikes = js_add (js_add (js_prop likes ''FR'') (js_prop likes ''R'')) (js_prop likes ''SR'');
          leftLikes = js_add (js_add (js_prop likes ''FL'') (js_prop likes ''L'')) (js_prop likes ''SL'');
          moderateLikes = js_prop likes ''M'';
          polarizationScore = js_abs (js_sub rightLikes leftLikes)
      in \<lparr>pv_postID = p_postID p, pv_title = p_title p, pv_body = p_body p,
          pv_sources = p_sources p, pv_datePosted = p_datePosted p,
          pv_username = u_username u, pv_firstName = u_firstName u,
          pv_lastName = u_lastName u, pv_polLean = u_polLean u,
          pv_commentCount = int (length (filter (\<lambda>c. c_postID c = Some (p_postID p)) (Comments d))),
          pv_likes = likes, pv_totalLikes = totalLikes, pv_rightLikes = rightLikes,
          pv_leftLikes = leftLikes, pv_moderateLikes = moderateLikes,
          pv_polarizationScore = polarizationScore\<rparr>)"

record posts_payload =
  pp_currentPage :: int
  pp_totalPages :: int
  pp_totalPosts :: int
  pp_postsPerPage :: int
  pp_sortBy :: string
  pp_posts :: "post_view list"

text \<open>
  \<^verbatim>\<open>exports.getPosts\<close>: the response and the queries issued. \<open>tie\<close> is the engine's
  order of equal keys in the page query of this request. A negative LIMIT or OFFSET is
  an SQL error, which the handler's \<^verbatim>\<open>catch\<close> answers with status 500; the limit is
  never 0 (\<^verbatim>\<open>parseInt(...) || 10\<close>).
\<close>

definition getPosts :: "(post_row \<times> user_row \<Rightarrow> nat) \<Rightarrow> db \<Rightarrow> int option \<Rightarrow> int option \<Rightarrow> string option \<Rightarrow> posts_payload reply \<times> storage_call list" where
  "getPosts tie d q_page q_limit q_sortBy =
     (let page = js_or_int q_page 1;
          limit = js_or_int q_limit 10;
          sortBy = js_or_str q_sortBy ''recent'';
          offset = (page - 1) * limit;
          orderClause = postOrderOf sortBy
      in if limit < 0 \<or> offset < 0
         then (Failure 500 ''Server error while fetching posts'',
               [SelectPostsPage orderClause limit offset])
         else
           (let rows = selectPostsPage tie d orderClause limit offset;
                posts = map (postView d) rows;
                totalPosts = int (length (PostsData d));
                totalPages = js_ceil_div totalPosts limit
            in (Success 200
                  \<lparr>pp_currentPage = page, pp_totalPages = totalPages, pp_totalPosts = totalPosts,
                   pp_postsPerPage = limit, pp_sortBy = sortBy, pp_posts = posts\<rparr>,
                SelectPostsPage orderClause limit offset
                  # map (\<lambda>row. SelectLikeCounts POST (p_postID (fst row))) rows
                  @ [SelectCountPosts])))"

section \<open>Fetching a post\<close>

record comment_brief =
  cb_commentID :: int
  cb_body :: string
  cb_datePosted :: int
  cb_parentCommentID :: "int option"
  cb_username :: string
  cb_firstName :: string
  cb_lastName :: string
  cb_polLean :: polLean
  cb_likes :: js_object

record post_detail =
  pd_postID :: int
  pd_title :: string
  pd_body :: string
  pd_sources :: "string option"
  pd_datePosted :: int
  pd_username :: string
  pd_firstName :: string
  pd_lastName :: string
  pd_polLean :: polLean
  pd_likes :: js_object
  pd_comments :: "comment_brief list"

text \<open>\<^verbatim>\<open>... FROM Comments c JOIN Users u ON c.username = u.username WHERE c.postID = ?
  ORDER BY c.datePosted ASC\<close>.\<close>

definition selectCommentsOfPost :: "(comment_row \<times> user_row \<Rightarrow> nat) \<Rightarrow> db \<Rightarrow> int \<Rightarrow> (comment_row \<times> user_row) list" where
  "selectCommentsOfPost tie d postID =
     sort_key (\<lambda>row. (c_datePosted (fst row), tie row))
       (joinUsers c_username (filter (\<lambda>c. c_postID c = Some postID) (Comments d)) (Users d))"

definition commentBrief :: "db \<Rightarrow> comment_row \<times> user_row \<Rightarrow> comment_brief" where
  "commentBrief d row =
     (let c = fst row; u = snd row
      in \<lparr>cb_commentID = c_commentID c, cb_body = c_body c, cb_datePosted = c_datePosted c,
          cb_parentCommentID = c_parentCommentID c, cb_username = u_username u,
          cb_firstName = u_firstName u, cb_lastName = u_lastName u, cb_polLean = u_polLean u,
          cb_likes = likeDistribution (Likes d) COMMENT (c_commentID c)\<rparr>)"

text \<open>\<^verbatim>\<open>exports.getPostById\<close>; \<open>tie\<close> is the engine's order of equal keys in the query
  of the comments.\<close>

definition getPostById :: "(comment_row \<times> user_row \<Rightarrow> nat) \<Rightarrow> db \<Rightarrow> int \<Rightarrow> post_detail reply \<times> storage_call list" where
  "getPostById tie d postID =
     (case joinUsers p_username (filter (\<lambda>p. p_postID p = postID) (PostsData d)) (Users d) of
        [] \<Rightarrow> (Failure 404 ''Post not found'', [SelectPostById postID])
      | post # _ \<Rightarrow>
         (let p = fst post; u = snd post;
              likes = likeDistribution (Likes d) POST postID;
              comments = selectCommentsOfPost tie d postID
          in (Success 200
                \<lparr>pd_postID = p_postID p, pd_title = p_title p, pd_body = p_body p,
                 pd_sources = p_sources p, pd_datePosted = p_datePosted p,
                 pd_username = u_username u, pd_firstName = u_firstName u,
                 pd_lastName = u_lastName u, pd_polLean = u_polLean u,
                 pd_likes = likes, pd_comments = map (commentBrief d) comments\<rparr>,
              [SelectPostById postID, SelectLikeCounts POST postID, SelectCommentsOfPost postID]
                @ map (\<lambda>row. SelectLikeCounts COMMENT (c_commentID (fst row))) comments)))"

section \<open>Listing comments\<close>

text \<open>The \<^verbatim>\<open>switch (sortBy)\<close> of \<^verbatim>\<open>getComments\<close>.\<close>

definition commentOrderOf :: "string \<Rightarrow> comment_order" where
  "commentOrderOf sortBy =
     (if sortBy = ''controversial'' then CByControversial
      else if sortBy = ''balanced'' then CByBalanced
      else if sortBy = ''oldest'' then CByOldest
      else CByRecent)"

fun commentSortKey :: "db \<Rightarrow> comment_order \<Rightarrow> comment_row \<times> user_row \<Rightarrow> int \<times> int" where
  "commentSortKey d CByControversial (c, u) =
     (- countAll (Likes d) COMMENT (c_commentID c), - c_datePosted c)"
| "commentSortKey d CByBalanced (c, u) =
     (\<bar>countLeans (Likes d) COMMENT (c_commentID c) [FR, R, SR]
        - countLeans (Likes d) COMMENT (c_commentID c) [FL, L, SL]\<bar>, - c_datePosted c)"
| "commentSortKey d CByOldest (c, u) = (c_datePosted c, 0)"
| "commentSortKey d CByRecent (c, u) = (- c_datePosted c, 0)"

text \<open>The WHERE clause: \<^verbatim>\<open>c.postID = ?\<close> and, for the top level,
  \<^verbatim>\<open>c.parentCommentID IS NULL\<close>, for the replies to a comment, \<^verbatim>\<open>c.parentCommentID = ?\<close>.\<close>

definition whereClause :: "int \<Rightarrow> int option \<Rightarrow> comment_row \<Rightarrow> bool" where
  "whereClause postID parentCommentID c =
     (c_postID c = Some postID \<and>
      (case parentCommentID of
         None \<Rightarrow> c_parentCommentID c = None
       | Some parent \<Rightarrow> c_parentCommentID c = Some parent))"

definition orderedComments :: "(comment_row \<times> user_row \<Rightarrow> nat) \<Rightarrow> db \<Rightarrow> int \<Rightarrow> int option \<Rightarrow> comment_order \<Rightarrow> (comment_row \<times> user_row) list" where
  "orderedComments tie d postID parentCommentID order =
     sort_key (\<lambda>row. (commentSortKey d order row, tie row))
       (joinUsers c_username (filter (whereClause postID parentCommentID) (Comments d)) (Users d))"

definition selectCommentsPage :: "(comment_row \<times> user_row \<Rightarrow> nat) \<Rightarrow> db \<Rightarrow> int \<Rightarrow> int option \<Rightarrow> comment_order \<Rightarrow> int \<Rightarrow> int \<Rightarrow> (comment_row \<times> user_row) list" where
  "selectCommentsPage tie d postID parentCommentID order limit offset =
     take (nat limit) (drop (nat offset) (orderedComments tie d postID parentCommentID order))"

text \<open>
  \<^verbatim>\<open>SELECT COUNT(*) as total FROM Comments WHERE ${whereClause}\<close>. The WHERE clause
  built for the page query names its columns \<^verbatim>\<open>c.postID\<close> and \<^verbatim>\<open>c.parentCommentID\<close>, and
  this FROM declares no alias \<^verbatim>\<open>c\<close>: the database refuses the query, whatever the
  storage and the parameters.
\<close>

definition selectCountComments :: "db \<Rightarrow> int \<Rightarrow> int option \<Rightarrow> sql_error + int" where
  "selectCountComments d postID parentCommentID = Inl (UnknownColumn ''c.postID'')"

record comment_view =
  cv_commentID :: int
  cv_postID :: "int option"
  cv_body :: string
  cv_datePosted :: int
  cv_parentCommentID :: "int option"
  cv_username :: string
  cv_firstName :: string
  cv_lastName :: string
  cv_polLean :: polLean
  cv_replyCount :: int
  cv_likes :: js_object
  cv_totalLikes :: int

definition commentView :: "db \<Rightarrow> comment_row \<times> user_row \<Rightarrow> comment_view" where
  "commentView d row =
     (let c = fst row; u = snd row;
          likes = likeDistribution (Likes d) COMMENT (c_commentID c)
      in \<lparr>cv_commentID = c_commentID c, cv_postID = c_postID c, cv_body = c_body c,
          cv_datePosted = c_datePosted c, cv_parentCommentID = c_parentCommentID c,
          cv_username = u_username u, cv_firstName = u_firstName u,
          cv_lastName = u_lastName u, cv_polLean = u_polLean u,
          cv_replyCount =
            int (length (filter (\<lambda>r. c_parentCommentID r = Some (c_commentID c)) (Comments d))),
          cv_likes = likes, cv_totalLikes = sumValues likes\<rparr>)"

record comments_payload =
  cp_currentPage :: int
  cp_totalPages :: int
  cp_totalComments :: int
  cp_commentsPerPage :: int
  cp_sortBy :: string
  cp_parentCommentID :: "int option"
  cp_comments :: "comment_view list"

text \<open>
  \<^verbatim>\<open>exports.getComments\<close>. \<open>q_parentID\<close> is \<^verbatim>\<open>req.query.parentID || null\<close> read as
  the comment id it names; \<open>tie\<close> is the engine's order of equal keys in the page
  query. The error of the count query is caught like any other and answered with
  status 500.
\<close>

definition getComments :: "(comment_row \<times> user_row \<Rightarrow> nat) \<Rightarrow> db \<Rightarrow> int \<Rightarrow> int option \<Rightarrow> int option \<Rightarrow> string option \<Rightarrow> int option \<Rightarrow> comments_payload reply \<times> storage_call list" where
  "getComments tie d postID q_page q_limit q_sortBy q_parentID =
     (let page = js_or_int q_page 1;
          limit = js_or_int q_limit 20;
          sortBy = js_or_str q_sortBy ''recent'';
          parentCommentID = q_parentID;
          offset = (page - 1) * limit
      in if \<not> postExists d postID
         then (Failure 404 ''Post not found'', [SelectPostExists postID])
         else
           (let orderClause = commentOrderOf sortBy
            in if limit < 0 \<or> offset < 0
               then (Failure 500 ''Server error while fetching comments'',
                     [SelectPostExists postID,
                      SelectCommentsPage postID parentCommentID orderClause limit offset])
               else
                 (let rows = selectCommentsPage tie d postID parentCommentID orderClause limit offset;
                      comments = map (commentView d) rows;
                      calls =
                        [SelectPostExists postID,
                         SelectCommentsPage postID parentCommentID orderClause limit offset]
                          @ map (\<lambda>row. SelectLikeCounts COMMENT (c_commentID (fst row))) rows
                          @ [SelectCountComments postID parentCommentID]
                  in case selectCountComments d postID parentCommentID of
                       Inl err \<Rightarrow> (Failure 500 ''Server error while fetching comments'', calls)
                     | Inr totalComments \<Rightarrow>
                         (let totalPages = js_ceil_div totalComments limit
                          in (Success 200
                                \<lparr>cp_currentPage = page, cp_totalPages = totalPages,
                                 cp_totalComments = totalComments, cp_commentsPerPage = limit,
                                 cp_sortBy = sortBy, cp_parentCommentID = parentCommentID,
                                 cp_comments = comments\<rparr>,
                              calls)))))"

section \<open>Adding a comment\<close>

text \<open>
  The stored procedure \<^verbatim>\<open>insertComment(p_entityType ENUM('POST', 'COMMENT'), p_entityID
  INT, p_username VARCHAR(50), p_body TEXT)\<close> of the repository's SQL (its IN parameters
  are \<^verbatim>\<open>in_...\<close> here). The handler calls it with \<^verbatim>\<open>(postID || null, username,
  parentCommentID || null, body)\<close>, in this order: the procedure receives a number or
  NULL for the ENUM, the username for the INT, and a number or NULL for the VARCHAR.
  What MySQL makes of a number given for an ENUM, of a string given for an INT and of a
  number given for a VARCHAR depends on the SQL mode and on the value; the three
  conversions are parameters (\<open>asEnum\<close>, \<open>asInt\<close>, \<open>asVarchar\<close>), each an error or the
  converted value. A NULL stays NULL. The INSERT is refused when it would store NULL in
  a NOT NULL column of Comments or a username that is not in Users. The result is the
  error thrown or the \<^verbatim>\<open>message\<close> returned; the row inserted into the Comments table of
  that SQL is not part of the model.
\<close>

datatype enum_value = Member entityType | NoMember

definition insertComment :: "(int \<Rightarrow> sql_error + enum_value) \<Rightarrow> (string \<Rightarrow> sql_error + int) \<Rightarrow> (int \<Rightarrow> string) \<Rightarrow> db \<Rightarrow> int option \<Rightarrow> string \<Rightarrow> int option \<Rightarrow> string \<Rightarrow> sql_error + string" where
  "insertComment asEnum asInt asVarchar d arg1 arg2 arg3 arg4 =
     (case (case arg1 of None \<Rightarrow> Inr None
                       | Some n \<Rightarrow> (case asEnum n of Inl err \<Rightarrow> Inl err | Inr v \<Rightarrow> Inr (Some v))) of
        Inl err \<Rightarrow> Inl err
      | Inr in_entityType \<Rightarrow>
         (case asInt arg2 of
            Inl err \<Rightarrow> Inl err
          | Inr in_entityID \<Rightarrow>
             (let in_username = map_option asVarchar arg3
              in if in_entityType = Some (Member POST) \<and> \<not> postExists d in_entityID
                 then Inl (Signalled ''Invalid Post ID'')
                 else if in_entityType = Some (Member COMMENT) \<and> \<not> commentExists d in_entityID
                 then Inl (Signalled ''Invalid Comment ID'')
                 else
                   (case in_entityType of
                      None \<Rightarrow> Inl NotNullFails
                    | Some entityType \<Rightarrow>
                       (case in_username of
                          None \<Rightarrow> Inl NotNullFails
                        | Some username \<Rightarrow>
                            if username \<notin> set (map u_username (Users d))
                            then Inl ForeignKeyFails
                            else Inr ''Comment Created'')))))"

text \<open>
  \<^verbatim>\<open>exports.addComment\<close>. \<open>lastInsertId\<close> is what \<^verbatim>\<open>SELECT LAST_INSERT_ID()\<close> returns
  after the call. A field of the body is absent (\<open>None\<close>) or has a value; 0 and the
  empty string are falsy.
\<close>

definition addComment :: "(int \<Rightarrow> sql_error + enum_value) \<Rightarrow> (string \<Rightarrow> sql_error + int) \<Rightarrow> (int \<Rightarrow> string) \<Rightarrow> db \<Rightarrow> int \<Rightarrow> string \<Rightarrow> int option \<Rightarrow> string option \<Rightarrow> int option \<Rightarrow> int reply \<times> storage_call list" where
  "addComment asEnum asInt asVarchar d lastInsertId username postID body parentCommentID =
     (if js_or_str body [] = []
      then (Failure 400 ''Comment body is required'', [])
      else if js_or_null postID = None \<and> js_or_null parentCommentID = None
      then (Failure 400 ''Either postID or parentCommentID must be provided'', [])
      else
        (let text = js_or_str body [];
             call = CallInsertComment (js_or_null postID) username (js_or_null parentCommentID) text
         in case insertComment asEnum asInt asVarchar d
                   (js_or_null postID) username (js_or_null parentCommentID) text of
              Inl err \<Rightarrow> (Failure 500 ''Server error while adding comment'', [call])
            | Inr message \<Rightarrow>
                if message = ''Comment Created''
                then (Success 201 lastInsertId, [call, SelectLastInsertId])
                else (Failure 500 ''Failed to add comment'', [call])))"

section \<open>Vocabulary of the statements\<close>

text \<open>The unique key \<^verbatim>\<open>unique_like (username, entityType, entityID)\<close> of a Likes row.\<close>

definition likeKey :: "like_row \<Rightarrow> string \<times> entityType \<times> int" where
  "likeKey l = (l_username l, l_entityType l, l_entityID l)"

text \<open>The request string that denotes an entity type.\<close>

definition entityType_str :: "entityType \<Rightarrow> string" where
  "entityType_str t = (case t of POST \<Rightarrow> ''POST'' | COMMENT \<Rightarrow> ''COMMENT'')"

text \<open>The entity a like refers to is a row of PostsData or of Comments.\<close>

definition entityExists :: "db \<Rightarrow> entityType \<Rightarrow> int \<Rightarrow> bool" where
  "entityExists d t e = (case t of POST \<Rightarrow> postExists d e | COMMENT \<Rightarrow> commentExists d e)"

text \<open>The existence query \<^verbatim>\<open>addLike\<close> issues for an entity type.\<close>

definition entityCheck :: "entityType \<Rightarrow> int \<Rightarrow> storage_call" where
  "entityCheck t e = (case t of POST \<Rightarrow> SelectPostExists e | COMMENT \<Rightarrow> SelectCommentExists e)"

text \<open>The leaning \<^verbatim>\<open>SELECT polLean FROM Users WHERE username = ?\<close> finds, if any.\<close>

definition userLean :: "db \<Rightarrow> string \<Rightarrow> polLean option" where
  "userLean d n =
     (case filter (\<lambda>u. u_username u = n) (Users d) of [] \<Rightarrow> None | u # _ \<Rightarrow> Some (u_polLean u))"

text \<open>The rows a listing response carries; none when the request failed.\<close>

definition pagePosts :: "posts_payload reply \<times> storage_call list \<Rightarrow> post_view list" where
  "pagePosts res = (case fst res of Failure c m \<Rightarrow> [] | Success c r \<Rightarrow> pp_posts r)"

text \<open>
  What the spec asks of a like distribution, for the entity \<open>(t, e)\<close> over the Likes rows
  \<open>ls\<close>: its keys are the seven leaning codes and no other, each code is mapped to the
  number of stored likes of that leaning (0 when there is none), and no value is
  negative.
\<close>

definition reportsAll :: "like_row list \<Rightarrow> entityType \<Rightarrow> int \<Rightarrow> js_object \<Rightarrow> bool" where
  "reportsAll ls t e obj =
     (map fst obj = leaningKeys
      \<and> (\<forall>p \<in> set allPolLean. js_prop obj (polLean_str p) = Some (countLean ls t e p))
      \<and> (\<forall>v \<in> set (map snd obj). 0 \<le> v))"

text \<open>A listing response with the \<^verbatim>\<open>sortBy\<close> field, which echoes the request, replaced.\<close>

definition withSortBy :: "string \<Rightarrow> posts_payload reply \<times> storage_call list \<Rightarrow> posts_payload reply \<times> storage_call list" where
  "withSortBy s res =
     (case fst res of Failure c m \<Rightarrow> res | Success c r \<Rightarrow> (Success c (r\<lparr>pp_sortBy := s\<rparr>), snd res))"

text \<open>
  The key constraints of the schema that the listing queries rely on: the primary keys of
  Users, PostsData and Comments, and the foreign keys of PostsData and Comments on
  Users (each row joins exactly one user).
\<close>

definition constraints :: "db \<Rightarrow> bool" where
  "constraints d =
     (distinct (map u_username (Users d))
      \<and> distinct (map p_postID (PostsData d))
      \<and> distinct (map c_commentID (Comments d))
      \<and> (\<forall>p \<in> set (PostsData d). p_username p \<in> set (map u_username (Users d)))
      \<and> (\<forall>c \<in> set (Comments d). c_username c \<in> set (map u_username (Users d))))"

text \<open>No two posts have the same ORDER BY keys under a sort policy: the clause leaves
  nothing open.\<close>

definition noTies :: "db \<Rightarrow> post_order \<Rightarrow> bool" where
  "noTies d order =
     distinct (map (postSortKey d order) (joinUsers p_username (PostsData d) (Users d)))"

text \<open>
  Requesting the pages 1, 2, ... up to the number of pages, with one limit and sort
  policy, over an unchanged storage, and concatenating the rows received. Every page is
  a query of its own: \<open>ties page\<close> is the engine's order of equal keys in the query of
  that page.
\<close>

definition allPostPages :: "(int \<Rightarrow> post_row \<times> user_row \<Rightarrow> nat) \<Rightarrow> db \<Rightarrow> int \<Rightarrow> string option \<Rightarrow> post_view list" where
  "allPostPages ties d limit q_sortBy =
     concat (map (\<lambda>page. pagePosts (getPosts (ties page) d (Some page) (Some limit) q_sortBy))
               [1..js_ceil_div (int (length (PostsData d))) limit])"

section \<open>A small database\<close>

definition mkUser :: "string \<Rightarrow> polLean \<Rightarrow> user_row" where
  "mkUser n p =
     \<lparr>u_username = n, u_firstName = n, u_lastName = ''Doe'', u_email = n @ ''@example.com'',
      u_passHash = ''hash'', u_polLean = p, u_accVerify = True, u_dateCreate = 0\<rparr>"

definition janedoe :: user_row where "janedoe = mkUser ''janedoe'' L"
definition mark123 :: user_row where "mark123 = mkUser ''mark123'' R"
definition johndoe :: user_row where "johndoe = mkUser ''johndoe'' M"

definition post1 :: post_row where
  "post1 = \<lparr>p_postID = 1, p_username = ''johndoe'', p_title = ''Energy'', p_body = ''A bill'',
             p_sources = Some ''https://energynews.com'', p_datePosted = 100\<rparr>"

definition post2 :: post_row where
  "post2 = \<lparr>p_postID = 2, p_username = ''mark123'', p_title = ''Voter ID'', p_body = ''A law'',
             p_sources = None, p_datePosted = 200\<rparr>"

definition post3 :: post_row where
  "post3 = \<lparr>p_postID = 3, p_username = ''janedoe'', p_title = ''Transit'', p_body = ''A plan'',
             p_sources = None, p_datePosted = 300\<rparr>"

definition comment1 :: comment_row where
  "comment1 = \<lparr>c_commentID = 1, c_postID = Some 1, c_parentCommentID = None,
                c_username = ''janedoe'', c_body = ''Finally'', c_datePosted = 110\<rparr>"

definition comment2 :: comment_row where
  "comment2 = \<lparr>c_commentID = 2, c_postID = Some 1, c_parentCommentID = None,
                c_username = ''mark123'', c_body = ''Who pays'', c_datePosted = 120\<rparr>"

definition comment3 :: comment_row where
  "comment3 = \<lparr>c_commentID = 3, c_postID = Some 1, c_parentCommentID = Some 1,
                c_username = ''johndoe'', c_body = ''Taxes'', c_datePosted = 130\<rparr>"

definition like1 :: like_row where
  "like1 = \<lparr>l_likeID = 1, l_username = ''janedoe'', l_entityType = POST, l_entityID = 1,
             l_polLean = L, l_dateLiked = 140\<rparr>"

definition like2 :: like_row where
  "like2 = \<lparr>l_likeID = 2, l_username = ''mark123'', l_entityType = POST, l_entityID = 1,
             l_polLean = R, l_dateLiked = 150\<rparr>"

definition like3 :: like_row where
  "like3 = \<lparr>l_likeID = 3, l_username = ''mark123'', l_entityType = COMMENT, l_entityID = 1,
             l_polLean = R, l_dateLiked = 160\<rparr>"

definition like4 :: like_row where
  "like4 = \<lparr>l_likeID = 4, l_username = ''mark123'', l_entityType = POST, l_entityID = 2,
             l_polLean = R, l_dateLiked = 165\<rparr>"

definition exampleDB :: db where
  "exampleDB = \<lparr>Users = [janedoe, mark123, johndoe], PostsData = [post1, post2, post3],
                 Comments = [comment1, comment2, comment3],
                 Likes = [like1, like2, like3, like4], nextLikeID = 5\<rparr>"

text \<open>Two posts of the same second, as the two posts that the repository's SQL inserts
  in one statement, and two ways for the engine to order them.\<close>

definition post4 :: post_row where
  "post4 = \<lparr>p_postID = 4, p_username = ''mark123'', p_title = ''Roads'', p_body = ''A tax'',
             p_sources = None, p_datePosted = 300\<rparr>"

definition tiedDB :: db where
  "tiedDB = \<lparr>Users = [janedoe, mark123, johndoe], PostsData = [post3, post4],
              Comments = [], Likes = [], nextLikeID = 1\<rparr>"

definition post3First :: "post_row \<times> user_row \<Rightarrow> nat" where
  "post3First row = (if p_postID (fst row) = 3 then 0 else 1)"

definition post4First :: "post_row \<times> user_row \<Rightarrow> nat" where
  "post4First row = (if p_postID (fst row) = 4 then 0 else 1)"

definition changingTies :: "int \<Rightarrow> post_row \<times> user_row \<Rightarrow> nat" where
  "changingTies page = (if page = 1 then post3First else post4First)"

text \<open>The engine that leaves rows with equal keys in the order of the table.\<close>

definition tableOrder :: "'r \<Rightarrow> nat" where
  "tableOrder row = 0"

lemma example_tables:
  "Users exampleDB = [janedoe, mark123, johndoe]"
  "PostsData exampleDB = [post1, post2, post3]"
  "Comments exampleDB = [comment1, comment2, comment3]"
  "Likes exampleDB = [like1, like2, like3, like4]"
  "nextLikeID exampleDB = 5"
  by (simp_all add: exampleDB_def)

lemma example_users:
  "u_username janedoe = ''janedoe''" "u_polLean janedoe = L"
  "u_username mark123 = ''mark123''" "u_polLean mark123 = R"
  "u_username johndoe = ''johndoe''" "u_polLean johndoe = M"
  by (simp_all add: janedoe_def mark123_def johndoe_def mkUser_def)

lemma example_posts:
  "p_postID post1 = 1" "p_username post1 = ''johndoe''" "p_datePosted post1 = 100"
  "p_postID post2 = 2" "p_username post2 = ''mark123''" "p_datePosted post2 = 200"
  "p_postID post3 = 3" "p_username post3 = ''janedoe''" "p_datePosted post3 = 300"
  by (simp_all add: post1_def post2_def post3_def)

lemma example_comments:
  "c_commentID comment1 = 1" "c_postID comment1 = Some 1" "c_parentCommentID comment1 = None"
  "c_username comment1 = ''janedoe''" "c_datePosted comment1 = 110"
  "c_commentID comment2 = 2" "c_postID comment2 = Some 1" "c_parentCommentID comment2 = None"
  "c_username comment2 = ''mark123''" "c_datePosted comment2 = 120"
  "c_commentID comment3 = 3" "c_postID comment3 = Some 1" "c_parentCommentID comment3 = Some 1"
  "c_username comment3 = ''johndoe''" "c_datePosted comment3 = 130"
  by (simp_all add: comment1_def comment2_def comment3_def)

lemma example_likes:
  "l_username like1 = ''janedoe''" "l_entityType like1 = POST" "l_entityID like1 = 1" "l_polLean like1 = L"
  "l_username like2 = ''mark123''" "l_entityType like2 = POST" "l_entityID like2 = 1" "l_polLean like2 = R"
  "l_username like3 = ''mark123''" "l_entityType like3 = COMMENT" "l_entityID like3 = 1" "l_polLean like3 = R"
  "l_username like4 = ''mark123''" "l_entityType like4 = POST" "l_entityID like4 = 2" "l_polLean like4 = R"
  by (simp_all add: like1_def like2_def like3_def like4_def)

lemmas example_rows = example_tables example_users example_posts example_comments example_likes

section \<open>Removing a like\<close>

lemma filter_no_match:
  "\<not> likeExists ls u t e \<Longrightarrow>
   filter (\<lambda>l. \<not> (l_username l = u \<and> l_entityType l = t \<and> l_entityID l = e)) ls = ls"
  by (induction ls) (auto simp: likeExists_def)

lemma filter_match_empty:
  "\<not> likeExists ls u t e \<Longrightarrow>
   filter (\<lambda>l. l_username l = u \<and> l_entityType l = t \<and> l_entityID l = e) ls = []"
  by (induction ls) (auto simp: likeExists_def)

lemma deleteLike_absent:
  assumes "\<not> likeExists (Likes d) u t e"
  shows "deleteLike d u t e = (d, 0)"
  unfolding deleteLike_def filter_no_match [OF assms] filter_match_empty [OF assms]
  by simp

lemma distinct_key_match_le1:
  "distinct (map likeKey ls) \<Longrightarrow>
   length (filter (\<lambda>l. l_username l = u \<and> l_entityType l = t \<and> l_entityID l = e) ls) \<le> 1"
proof (induction ls)
  case Nil
  then show ?case by simp
next
  case (Cons a ls)
  show ?case
  proof (cases "l_username a = u \<and> l_entityType a = t \<and> l_entityID a = e")
    case True
    from Cons.prems have "likeKey a \<notin> likeKey ` set ls" by simp
    with True have "\<not> likeExists ls u t e"
      by (auto simp: likeExists_def likeKey_def image_iff)
    then show ?thesis using True by (simp add: filter_match_empty)
  next
    case False
    then show ?thesis using Cons by auto
  qed
qed

lemma removeLike_store:
  "snd (snd (removeLike d username entityType entityID)) =
     d\<lparr>Likes := filter (\<lambda>l. \<not> (l_username l = username
                                \<and> entityType_of entityType = Some (l_entityType l)
                                \<and> l_entityID l = entityID)) (Likes d)\<rparr>"
proof (cases "entityType_of entityType")
  case None
  then show ?thesis by (simp add: removeLike_def)
next
  case (Some t)
  have "filter (\<lambda>l. \<not> (l_username l = username \<and> Some t = Some (l_entityType l)
                        \<and> l_entityID l = entityID)) (Likes d)
        = filter (\<lambda>l. \<not> (l_username l = username \<and> l_entityType l = t
                        \<and> l_entityID l = entityID)) (Likes d)"
    by (rule filter_cong) auto
  then show ?thesis using Some
    by (simp add: removeLike_def deleteLike_def)
qed

text \<open>
  C10. A remove-like request whose entityType is neither POST nor COMMENT fails with
  status 400 without issuing any query, and the storage is as before. A remove-like
  request with a valid entityType that matches no Likes row fails with 404 "Like not
  found", the DELETE being the only query, and the storage is as before. Whatever the
  request, the storage after it differs from the storage before it only in the Likes
  rows of the request's own (username, entityType, entityID), which are gone; under the
  unique key of Likes that is at most one row.
\<close>

theorem removeLike_touches_only_the_like:
  "(entityType \<noteq> ''POST'' \<and> entityType \<noteq> ''COMMENT'' \<longrightarrow>
      removeLike d username entityType entityID =
        (Failure 400 ''Entity type must be either POST or COMMENT'', [], d))
   \<and> (\<forall>t. entityType_of entityType = Some t \<and> \<not> likeExists (Likes d) username t entityID \<longrightarrow>
      removeLike d username entityType entityID =
        (Failure 404 ''Like not found'', [DeleteLike username t entityID], d))
   \<and> snd (snd (removeLike d username entityType entityID)) =
        d\<lparr>Likes := filter (\<lambda>l. \<not> (l_username l = username
                                   \<and> entityType_of entityType = Some (l_entityType l)
                                   \<and> l_entityID l = entityID)) (Likes d)\<rparr>
   \<and> (distinct (map likeKey (Likes d)) \<longrightarrow>
        length (Likes d) \<le> length (Likes (snd (snd (removeLike d username entityType entityID)))) + 1)"
proof (intro conjI allI impI)
  assume "entityType \<noteq> ''POST'' \<and> entityType \<noteq> ''COMMENT''"
  then show "removeLike d username entityType entityID =
        (Failure 400 ''Entity type must be either POST or COMMENT'', [], d)"
    by (simp add: removeLike_def entityType_of_def)
next
  fix t assume "entityType_of entityType = Some t \<and> \<not> likeExists (Likes d) username t entityID"
  then show "removeLike d username entityType entityID =
        (Failure 404 ''Like not found'', [DeleteLike username t entityID], d)"
    by (simp add: removeLike_def deleteLike_absent)
next
  show "snd (snd (removeLike d username entityType entityID)) =
        d\<lparr>Likes := filter (\<lambda>l. \<not> (l_username l = username
                                   \<and> entityType_of entityType = Some (l_entityType l)
                                   \<and> l_entityID l = entityID)) (Likes d)\<rparr>"
    by (rule removeLike_store)
next
  assume dk: "distinct (map likeKey (Likes d))"
  let ?P = "\<lambda>l. l_username l = username \<and> entityType_of entityType = Some (l_entityType l)
                 \<and> l_entityID l = entityID"
  have le: "length (filter ?P (Likes d)) \<le> 1"
  proof (cases "entityType_of entityType")
    case None
    then show ?thesis by simp
  next
    case (Some t)
    have "filter ?P (Likes d)
          = filter (\<lambda>l. l_username l = username \<and> l_entityType l = t \<and> l_entityID l = entityID) (Likes d)"
      using Some by (intro filter_cong) auto
    then show ?thesis using distinct_key_match_le1 [OF dk, of username t entityID] by simp
  qed
  have "length (Likes d) = length (filter ?P (Likes d)) + length (filter (\<lambda>l. \<not> ?P l) (Likes d))"
    by (rule sum_length_filter_compl [symmetric])
  then show "length (Likes d) \<le> length (Likes (snd (snd (removeLike d username entityType entityID)))) + 1"
    using le by (simp add: removeLike_store)
qed

theorem removeLike_touches_only_the_like_witness:
  "removeLike exampleDB ''johndoe'' ''BLOG'' 1 =
     (Failure 400 ''Entity type must be either POST or COMMENT'', [], exampleDB)
   \<and> removeLike exampleDB ''johndoe'' ''POST'' 1 =
     (Failure 404 ''Like not found'', [DeleteLike ''johndoe'' POST 1], exampleDB)
   \<and> Likes (snd (snd (removeLike exampleDB ''mark123'' ''POST'' 1))) = [like1, like3, like4]"
proof -
  have a: "entityType_of ''POST'' = Some POST \<and> \<not> likeExists (Likes exampleDB) ''johndoe'' POST 1"
    by (simp add: entityType_of_def likeExists_def example_rows)
  have b: "distinct (map likeKey (Likes exampleDB))"
    by (simp add: likeKey_def example_rows)
  have c: "filter (\<lambda>l. \<not> (l_username l = ''mark123''
                                \<and> entityType_of ''POST'' = Some (l_entityType l)
                                \<and> l_entityID l = 1)) (Likes exampleDB) = [like1, like3, like4]"
    by (simp add: entityType_of_def example_rows)
  have d: "length (Likes exampleDB) = 4"
    by (simp add: example_rows)
  show ?thesis
    using removeLike_touches_only_the_like [of "''BLOG''" exampleDB "''johndoe''" 1]
      removeLike_touches_only_the_like [of "''POST''" exampleDB "''johndoe''" 1] a
      removeLike_touches_only_the_like [of "''POST''" exampleDB "''mark123''" 1] b c d
    by auto
qed

section \<open>Adding a like\<close>

lemma user_filter_nonempty:
  "n \<in> set (map u_username (Users d)) \<Longrightarrow> filter (\<lambda>u. u_username u = n) (Users d) \<noteq> []"
  by (auto simp: filter_empty_conv)

lemma user_filter_empty:
  "n \<notin> set (map u_username (Users d)) \<Longrightarrow> filter (\<lambda>u. u_username u = n) (Users d) = []"
  by (auto simp: filter_empty_conv)

text \<open>
  C7, as stated, fails: \<^verbatim>\<open>addLike\<close> looks the user up in storage before it validates
  the entity type. With the invalid entity type BLOG, a known user gets the status 400
  after one query, and an unknown user gets 404 "User not found" instead of the
  validation error.
\<close>

theorem addLike_validation_after_storage_call:
  "addLike exampleDB 170 ''johndoe'' ''BLOG'' 1 =
     (Failure 400 ''Entity type must be either POST or COMMENT'',
      [SelectUserPolLean ''johndoe''], exampleDB)
   \<and> addLike exampleDB 170 ''nobody'' ''BLOG'' 1 =
     (Failure 404 ''User not found'', [SelectUserPolLean ''nobody''], exampleDB)"
  by (simp add: addLike_def example_rows entityType_of_def)

text \<open>
  C7, amended. For every add-like request whose entityType is neither POST nor COMMENT,
  the only query issued is the read of the user's leaning; the request then fails with
  status 400 (invalid entity type) when the user exists and with 404 "User not found"
  when not; the entity is not looked up, nothing is inserted, and the storage is as
  before.
\<close>

theorem addLike_invalid_entityType:
  assumes "entityType \<noteq> ''POST''" and "entityType \<noteq> ''COMMENT''"
  shows "addLike d now username entityType entityID =
           (if username \<in> set (map u_username (Users d))
            then Failure 400 ''Entity type must be either POST or COMMENT''
            else Failure 404 ''User not found'',
            [SelectUserPolLean username], d)"
proof (cases "username \<in> set (map u_username (Users d))")
  case True
  then obtain x xs where "filter (\<lambda>u. u_username u = username) (Users d) = x # xs"
    using user_filter_nonempty [OF True]
    by (cases "filter (\<lambda>u. u_username u = username) (Users d)") auto
  then show ?thesis using True assms
    by (simp add: addLike_def entityType_of_def)
next
  case False
  then show ?thesis using user_filter_empty [OF False]
    by (simp add: addLike_def)
qed

theorem addLike_invalid_entityType_witness:
  "addLike exampleDB 170 ''mark123'' ''STORY'' 2 =
     (Failure 400 ''Entity type must be either POST or COMMENT'',
      [SelectUserPolLean ''mark123''], exampleDB)"
  using addLike_invalid_entityType [of "''STORY''" exampleDB 170 "''mark123''" 2]
  by (simp add: example_rows)

text \<open>
  C5. When a Likes row exists for (username, entityType, entityID), the user being a
  row of Users and the entity a row of its table, an add-like request for the same
  triple fails with status 409 "You have already liked this item", and the storage
  after the request is the storage before it: nothing is inserted or replaced.
\<close>

theorem addLike_liked_conflict:
  assumes liked: "likeExists (Likes d) username t entityID"
    and user: "userLean d username = Some lean"
    and entity: "entityExists d t entityID"
  shows "addLike d now username (entityType_str t) entityID =
           (Failure 409 ''You have already liked this item'',
            [SelectUserPolLean username, entityCheck t entityID,
             CallInsertLike username t entityID lean], d)"
proof -
  from user obtain x xs where f: "filter (\<lambda>u. u_username u = username) (Users d) = x # xs"
    and l: "u_polLean x = lean"
    by (auto simp: userLean_def split: list.splits)
  show ?thesis
  proof (cases t)
    case POST
    show ?thesis using liked entity unfolding POST
      by (simp add: addLike_def f l entityType_of_def entityType_str_def insertLike_def
            entityExists_def entityCheck_def)
  next
    case COMMENT
    show ?thesis using liked entity unfolding COMMENT
      by (simp add: addLike_def f l entityType_of_def entityType_str_def insertLike_def
            entityExists_def entityCheck_def)
  qed
qed

theorem addLike_liked_conflict_witness:
  "addLike exampleDB 170 ''mark123'' ''COMMENT'' 1 =
     (Failure 409 ''You have already liked this item'',
      [SelectUserPolLean ''mark123'', SelectCommentExists 1, CallInsertLike ''mark123'' COMMENT 1 R],
      exampleDB)
   \<and> likeDistribution (Likes exampleDB) COMMENT 1 =
       [(''FL'', 0), (''L'', 0), (''SL'', 0), (''M'', 0), (''SR'', 0), (''R'', 1), (''FR'', 0)]"
proof -
  have 1: "likeExists (Likes exampleDB) ''mark123'' COMMENT 1"
    by (simp add: likeExists_def example_rows)
  have 2: "userLean exampleDB ''mark123'' = Some R"
    by (simp add: userLean_def example_rows)
  have 3: "entityExists exampleDB COMMENT 1"
    by (simp add: entityExists_def commentExists_def example_rows)
  have 4: "likeDistribution (Likes exampleDB) COMMENT 1 =
       [(''FL'', 0), (''L'', 0), (''SL'', 0), (''M'', 0), (''SR'', 0), (''R'', 1), (''FR'', 0)]"
    by (simp add: likeDistribution_def fillCounts_def selectLikeCounts_def countLean_def
          likesOfEntity_def likes_init_def allPolLean_def example_rows)
  show ?thesis
    using addLike_liked_conflict [OF 1 2 3, of 170] 4
    by (simp add: entityType_str_def entityCheck_def)
qed

lemma addLike_success:
  assumes "addLike d now username entityType entityID = (Success code likes, calls, d1)"
  shows "\<exists>t lean. entityType_of entityType = Some t \<and> userLean d username = Some lean
           \<and> entityExists d t entityID \<and> \<not> likeExists (Likes d) username t entityID
           \<and> d1 = d\<lparr>Likes := Likes d @
                      [\<lparr>l_likeID = nextLikeID d, l_username = username, l_entityType = t,
                        l_entityID = entityID, l_polLean = lean, l_dateLiked = now\<rparr>],
                    nextLikeID := nextLikeID d + 1\<rparr>
           \<and> code = 201 \<and> likes = likeDistribution (Likes d1) t entityID
           \<and> calls = [SelectUserPolLean username, entityCheck t entityID,
                CallInsertLike username t entityID lean, SelectLikeCounts t entityID]"
proof (cases "filter (\<lambda>u. u_username u = username) (Users d)")
  case Nil
  then show ?thesis using assms by (simp add: addLike_def)
next
  case (Cons x xs)
  note f = Cons
  show ?thesis
  proof (cases "entityType_of entityType")
    case None
    then show ?thesis using assms f by (simp add: addLike_def)
  next
    case (Some t)
    have ul: "userLean d username = Some (u_polLean x)" by (simp add: userLean_def f)
    show ?thesis
    proof (cases t)
      case POST
      show ?thesis using assms ul Some unfolding POST
        by (auto simp: addLike_def f insertLike_def entityExists_def entityCheck_def Let_def
              split: if_splits)
    next
      case COMMENT
      show ?thesis using assms ul Some unfolding COMMENT
        by (auto simp: addLike_def f insertLike_def entityExists_def entityCheck_def Let_def
              split: if_splits)
    qed
  qed
qed

text \<open>After a successful add-like the triple is liked: its Likes row, its user and its
  entity are in storage.\<close>

lemma addLike_success_liked:
  assumes "addLike d now username entityType entityID = (Success code likes, calls, d1)"
  shows "\<exists>t lean. entityType = entityType_str t \<and> likeExists (Likes d1) username t entityID
           \<and> userLean d1 username = Some lean \<and> entityExists d1 t entityID"
proof -
  from addLike_success [OF assms] obtain t lean where
    ty: "entityType_of entityType = Some t"
    and ul: "userLean d username = Some lean"
    and ee: "entityExists d t entityID"
    and d1: "d1 = d\<lparr>Likes := Likes d @
                      [\<lparr>l_likeID = nextLikeID d, l_username = username, l_entityType = t,
                        l_entityID = entityID, l_polLean = lean, l_dateLiked = now\<rparr>],
                    nextLikeID := nextLikeID d + 1\<rparr>"
    by blast
  have "entityType = entityType_str t"
    using ty by (auto simp: entityType_of_def entityType_str_def split: if_splits)
  moreover have "likeExists (Likes d1) username t entityID"
    by (simp add: d1 likeExists_def)
  moreover have "userLean d1 username = Some lean"
    using ul by (simp add: d1 userLean_def)
  moreover have "entityExists d1 t entityID"
    using ee by (cases t) (simp_all add: d1 entityExists_def postExists_def commentExists_def)
  ultimately show ?thesis by blast
qed

lemma deleteLike_appended:
  assumes "\<not> likeExists ls u t e"
  shows "filter (\<lambda>l. \<not> (l_username l = u \<and> l_entityType l = t \<and> l_entityID l = e))
           (ls @ [\<lparr>l_likeID = i, l_username = u, l_entityType = t, l_entityID = e,
                   l_polLean = p, l_dateLiked = n\<rparr>]) = ls"
    and "length (filter (\<lambda>l. l_username l = u \<and> l_entityType l = t \<and> l_entityID l = e)
           (ls @ [\<lparr>l_likeID = i, l_username = u, l_entityType = t, l_entityID = e,
                   l_polLean = p, l_dateLiked = n\<rparr>])) = 1"
  using filter_no_match [OF assms] filter_match_empty [OF assms] by simp_all

text \<open>
  C6. After a successful add-like from any storage \<open>d\<close>, the remove-like of the same
  (username, entityType, entityID) succeeds, returns the like distribution the entity
  had in \<open>d\<close>, and leaves the Likes table with exactly the rows of \<open>d\<close>; the whole
  storage is \<open>d\<close> again but for the AUTO_INCREMENT counter of Likes, which the insert
  advanced.
\<close>

theorem add_then_remove_restores:
  assumes "addLike d now username entityType entityID = (Success code likes, calls, d1)"
  shows "\<exists>t. entityType_of entityType = Some t
           \<and> removeLike d1 username entityType entityID =
               (Success 200 (likeDistribution (Likes d) t entityID),
                [DeleteLike username t entityID, SelectLikeCounts t entityID],
                d\<lparr>nextLikeID := nextLikeID d + 1\<rparr>)
           \<and> Likes (snd (snd (removeLike d1 username entityType entityID))) = Likes d"
proof -
  from addLike_success [OF assms] obtain t lean where
    ty: "entityType_of entityType = Some t"
    and nl: "\<not> likeExists (Likes d) username t entityID"
    and d1: "d1 = d\<lparr>Likes := Likes d @
                      [\<lparr>l_likeID = nextLikeID d, l_username = username, l_entityType = t,
                        l_entityID = entityID, l_polLean = lean, l_dateLiked = now\<rparr>],
                    nextLikeID := nextLikeID d + 1\<rparr>"
    by blast
  have del: "deleteLike d1 username t entityID = (d\<lparr>nextLikeID := nextLikeID d + 1\<rparr>, 1)"
    unfolding deleteLike_def d1 using deleteLike_appended [OF nl] by simp
  have "removeLike d1 username entityType entityID =
               (Success 200 (likeDistribution (Likes d) t entityID),
                [DeleteLike username t entityID, SelectLikeCounts t entityID],
                d\<lparr>nextLikeID := nextLikeID d + 1\<rparr>)"
    by (simp add: removeLike_def ty del)
  then show ?thesis using ty by simp
qed

theorem add_then_remove_restores_witness:
  "fst (addLike exampleDB 170 ''johndoe'' ''POST'' 1) =
     Success 201 [(''FL'', 0), (''L'', 1), (''SL'', 0), (''M'', 1), (''SR'', 0), (''R'', 1), (''FR'', 0)]
   \<and> removeLike (snd (snd (addLike exampleDB 170 ''johndoe'' ''POST'' 1))) ''johndoe'' ''POST'' 1 =
       (Success 200 [(''FL'', 0), (''L'', 1), (''SL'', 0), (''M'', 0), (''SR'', 0), (''R'', 1), (''FR'', 0)],
        [DeleteLike ''johndoe'' POST 1, SelectLikeCounts POST 1],
        exampleDB\<lparr>nextLikeID := 6\<rparr>)"
proof -
  define likes1 :: js_object where
    "likes1 = [(''FL'', 0), (''L'', 1), (''SL'', 0), (''M'', 1), (''SR'', 0), (''R'', 1), (''FR'', 0)]"
  define d1 where "d1 = snd (snd (addLike exampleDB 170 ''johndoe'' ''POST'' 1))"
  define calls where "calls = fst (snd (addLike exampleDB 170 ''johndoe'' ''POST'' 1))"
  have r: "fst (addLike exampleDB 170 ''johndoe'' ''POST'' 1) = Success 201 likes1"
    by (simp add: addLike_def example_rows entityType_of_def postExists_def
          insertLike_def likeExists_def likeDistribution_def fillCounts_def
          selectLikeCounts_def countLean_def likesOfEntity_def likes_init_def allPolLean_def
          likes1_def)
  have a: "addLike exampleDB 170 ''johndoe'' ''POST'' 1 = (Success 201 likes1, calls, d1)"
    using r by (simp add: d1_def calls_def prod_eq_iff)
  have dist: "likeDistribution (Likes exampleDB) POST 1 =
       [(''FL'', 0), (''L'', 1), (''SL'', 0), (''M'', 0), (''SR'', 0), (''R'', 1), (''FR'', 0)]"
    by (simp add: likeDistribution_def fillCounts_def selectLikeCounts_def countLean_def
          likesOfEntity_def likes_init_def allPolLean_def example_rows)
  have n: "nextLikeID exampleDB + 1 = 6" by (simp add: example_rows)
  show ?thesis
    using add_then_remove_restores [OF a] r dist n
    by (auto simp: entityType_of_def d1_def likes1_def)
qed

section \<open>Like distributions\<close>

lemma likeDistribution_eq:
  "likeDistribution ls t e =
     [(''FL'', countLean ls t e FL), (''L'', countLean ls t e L), (''SL'', countLean ls t e SL),
      (''M'', countLean ls t e M), (''SR'', countLean ls t e SR), (''R'', countLean ls t e R),
      (''FR'', countLean ls t e FR)]"
  by (simp add: likeDistribution_def fillCounts_def selectLikeCounts_def allPolLean_def likes_init_def)

lemma reportsAll_likeDistribution: "reportsAll ls t e (likeDistribution ls t e)"
  by (simp add: reportsAll_def likeDistribution_eq leaningKeys_def allPolLean_def js_prop_def
        countLean_def)

lemma likeDistribution_no_likes:
  "likesOfEntity ls t e = [] \<Longrightarrow> likeDistribution ls t e = likes_init"
  by (simp add: likeDistribution_eq countLean_def likes_init_def)

lemma pagePosts_getPosts:
  "pagePosts (getPosts tie d q_page q_limit q_sortBy) =
     (if js_or_int q_limit 10 < 0 \<or> (js_or_int q_page 1 - 1) * js_or_int q_limit 10 < 0 then []
      else map (postView d)
             (selectPostsPage tie d (postOrderOf (js_or_str q_sortBy ''recent'')) (js_or_int q_limit 10)
                ((js_or_int q_page 1 - 1) * js_or_int q_limit 10)))"
  by (simp add: pagePosts_def getPosts_def Let_def)

lemma postView_likes:
  "pv_likes (postView d row) = likeDistribution (Likes d) POST (pv_postID (postView d row))"
  by (simp add: postView_def Let_def)

lemma postView_postID: "pv_postID (postView d row) = p_postID (fst row)"
  by (simp add: postView_def Let_def)

lemma commentBrief_likes:
  "cb_likes (commentBrief d row) = likeDistribution (Likes d) COMMENT (cb_commentID (commentBrief d row))"
  by (simp add: commentBrief_def Let_def)

lemma removeLike_success:
  assumes "removeLike d username entityType entityID = (Success code likes, calls, d')"
  shows "\<exists>t. entityType_of entityType = Some t \<and> likes = likeDistribution (Likes d') t entityID"
  using assms
  by (auto simp: removeLike_def Let_def split: option.splits prod.splits if_splits)

text \<open>
  The distributions that \<^verbatim>\<open>getPosts\<close>, \<^verbatim>\<open>getPostById\<close> (for the post and each of its
  comments), \<^verbatim>\<open>addLike\<close> and \<^verbatim>\<open>removeLike\<close> return have exactly the seven keys, each
  with the number of likes of that leaning stored for the entity.
\<close>

lemma returned_distributions_report_all:
  "(\<forall>p \<in> set (pagePosts (getPosts tie d q_page q_limit q_sortBy)).
      reportsAll (Likes d) POST (pv_postID p) (pv_likes p))
   \<and> (\<forall>code r calls. getPostById tie' d postID = (Success code r, calls) \<longrightarrow>
        reportsAll (Likes d) POST postID (pd_likes r)
        \<and> (\<forall>c \<in> set (pd_comments r). reportsAll (Likes d) COMMENT (cb_commentID c) (cb_likes c)))
   \<and> (\<forall>code likes calls d'. addLike d now username entityType entityID = (Success code likes, calls, d') \<longrightarrow>
        (\<exists>t. entityType_of entityType = Some t \<and> reportsAll (Likes d') t entityID likes))
   \<and> (\<forall>code likes calls d'. removeLike d username entityType entityID = (Success code likes, calls, d') \<longrightarrow>
        (\<exists>t. entityType_of entityType = Some t \<and> reportsAll (Likes d') t entityID likes))"
proof (intro conjI ballI allI impI)
  fix p assume "p \<in> set (pagePosts (getPosts tie d q_page q_limit q_sortBy))"
  then obtain row where "p = postView d row"
    by (auto simp: pagePosts_getPosts split: if_splits)
  then show "reportsAll (Likes d) POST (pv_postID p) (pv_likes p)"
    by (simp add: postView_likes reportsAll_likeDistribution)
next
  fix code r calls
  assume a: "getPostById tie' d postID = (Success code r, calls)"
  then have l: "pd_likes r = likeDistribution (Likes d) POST postID"
    and c: "pd_comments r = map (commentBrief d) (selectCommentsOfPost tie' d postID)"
    by (auto simp: getPostById_def Let_def split: list.splits)
  show "reportsAll (Likes d) POST postID (pd_likes r)"
    by (simp add: l reportsAll_likeDistribution)
  fix c' assume "c' \<in> set (pd_comments r)"
  then obtain row where "c' = commentBrief d row" using c by auto
  then show "reportsAll (Likes d) COMMENT (cb_commentID c') (cb_likes c')"
    by (simp add: commentBrief_likes reportsAll_likeDistribution)
next
  fix code likes calls d'
  assume "addLike d now username entityType entityID = (Success code likes, calls, d')"
  from addLike_success [OF this]
  show "\<exists>t. entityType_of entityType = Some t \<and> reportsAll (Likes d') t entityID likes"
    using reportsAll_likeDistribution by blast
next
  fix code likes calls d'
  assume "removeLike d username entityType entityID = (Success code likes, calls, d')"
  from removeLike_success [OF this]
  show "\<exists>t. entityType_of entityType = Some t \<and> reportsAll (Likes d') t entityID likes"
    using reportsAll_likeDistribution by blast
qed

text \<open>And the four handlers do return them: a like that is new succeeds, the removal of
  a like that exists succeeds, a post that exists is fetched, a page of posts is listed
  (\<open>getPosts_page\<close> below).\<close>

lemma addLike_succeeds:
  assumes user: "userLean d username = Some lean"
    and entity: "entityExists d t entityID"
    and new: "\<not> likeExists (Likes d) username t entityID"
  shows "addLike d now username (entityType_str t) entityID =
           (Success 201
              (likeDistribution
                 (Likes d @ [\<lparr>l_likeID = nextLikeID d, l_username = username, l_entityType = t,
                              l_entityID = entityID, l_polLean = lean, l_dateLiked = now\<rparr>])
                 t entityID),
            [SelectUserPolLean username, entityCheck t entityID,
             CallInsertLike username t entityID lean, SelectLikeCounts t entityID],
            d\<lparr>Likes := Likes d @
                  [\<lparr>l_likeID = nextLikeID d, l_username = username, l_entityType = t,
                    l_entityID = entityID, l_polLean = lean, l_dateLiked = now\<rparr>],
              nextLikeID := nextLikeID d + 1\<rparr>)"
proof -
  from user obtain x xs where f: "filter (\<lambda>u. u_username u = username) (Users d) = x # xs"
    and l: "u_polLean x = lean"
    by (auto simp: userLean_def split: list.splits)
  from f have "x \<in> set (filter (\<lambda>u. u_username u = username) (Users d))" by simp
  then have m: "username \<in> u_username ` set (Users d)" by auto
  show ?thesis
  proof (cases t)
    case POST
    show ?thesis using new entity m unfolding POST
      by (simp add: addLike_def f l entityType_of_def entityType_str_def insertLike_def
            entityExists_def entityCheck_def)
  next
    case COMMENT
    show ?thesis using new entity m unfolding COMMENT
      by (simp add: addLike_def f l entityType_of_def entityType_str_def insertLike_def
            entityExists_def entityCheck_def)
  qed
qed

lemma removeLike_succeeds:
  assumes "likeExists (Likes d) username t entityID"
  shows "fst (removeLike d username (entityType_str t) entityID) =
           Success 200
             (likeDistribution
                (filter (\<lambda>l. \<not> (l_username l = username \<and> l_entityType l = t
                                 \<and> l_entityID l = entityID)) (Likes d))
                t entityID)"
proof -
  have ty: "entityType_of (entityType_str t) = Some t"
    by (cases t) (simp_all add: entityType_of_def entityType_str_def)
  have "filter (\<lambda>l. l_username l = username \<and> l_entityType l = t \<and> l_entityID l = entityID) (Likes d) \<noteq> []"
    using assms by (auto simp: likeExists_def filter_empty_conv)
  then show ?thesis by (simp add: removeLike_def ty deleteLike_def)
qed

lemma getPostById_post3:
  "fst (getPostById tableOrder exampleDB 3) =
     Success 200
       \<lparr>pd_postID = 3, pd_title = p_title post3, pd_body = p_body post3,
        pd_sources = p_sources post3, pd_datePosted = 300,
        pd_username = ''janedoe'', pd_firstName = u_firstName janedoe,
        pd_lastName = u_lastName janedoe, pd_polLean = L,
        pd_likes = [(''FL'', 0), (''L'', 0), (''SL'', 0), (''M'', 0), (''SR'', 0), (''R'', 0), (''FR'', 0)],
        pd_comments = []\<rparr>"
proof -
  have j: "joinUsers p_username (filter (\<lambda>p. p_postID p = 3) (PostsData exampleDB)) (Users exampleDB)
             = [(post3, janedoe)]"
    by (simp add: joinUsers_def example_rows)
  have c: "selectCommentsOfPost tableOrder exampleDB 3 = []"
    by (simp add: selectCommentsOfPost_def joinUsers_def example_rows)
  have l: "likeDistribution (Likes exampleDB) POST 3 =
     [(''FL'', 0), (''L'', 0), (''SL'', 0), (''M'', 0), (''SR'', 0), (''R'', 0), (''FR'', 0)]"
    by (simp add: likeDistribution_eq countLean_def likesOfEntity_def example_rows)
  show ?thesis
    by (simp add: getPostById_def j c l example_users example_posts)
qed

lemma example_distributions:
  "likeDistribution (Likes exampleDB) POST 3 =
     [(''FL'', 0), (''L'', 0), (''SL'', 0), (''M'', 0), (''SR'', 0), (''R'', 0), (''FR'', 0)]"
  "likeDistribution (Likes exampleDB) POST 2 =
     [(''FL'', 0), (''L'', 0), (''SL'', 0), (''M'', 0), (''SR'', 0), (''R'', 1), (''FR'', 0)]"
  "likeDistribution (Likes exampleDB) POST 1 =
     [(''FL'', 0), (''L'', 1), (''SL'', 0), (''M'', 0), (''SR'', 0), (''R'', 1), (''FR'', 0)]"
  "likeDistribution (Likes exampleDB) COMMENT 2 =
     [(''FL'', 0), (''L'', 0), (''SL'', 0), (''M'', 0), (''SR'', 0), (''R'', 0), (''FR'', 0)]"
  by (simp_all add: likeDistribution_eq countLean_def likesOfEntity_def example_rows)

text \<open>The listing of comments never answers with a success: for an existing post the
  count query fails after the page has been read and aggregated.\<close>

lemma getComments_never_succeeds:
  "fst (getComments tie d postID q_page q_limit q_sortBy q_parentID) \<noteq> Success code r"
  by (simp add: getComments_def Let_def selectCountComments_def)

lemma getComments_existing_post:
  assumes "postExists d postID"
  shows "fst (getComments tie d postID q_page q_limit q_sortBy q_parentID) =
           Failure 500 ''Server error while fetching comments''"
  using assms by (simp add: getComments_def Let_def selectCountComments_def)

lemma example_comments_recent:
  "orderedComments tie exampleDB 1 None CByRecent = [(comment2, mark123), (comment1, janedoe)]"
  by (simp add: orderedComments_def joinUsers_def whereClause_def example_rows)

text \<open>
  C1 asks that the listing of comments return, like the other aggregations, a like
  distribution with the seven keys for each comment, all 0 and not an error for a comment
  without likes. The code does not: comment 2 of post 1 has no like and its aggregation
  is the seven keys with 0, but the listing of the comments of post 1 is answered with
  status 500, because the count query that follows the aggregation is refused.
\<close>

theorem getComments_returns_no_distribution:
  "fst (getComments tableOrder exampleDB 1 (Some 1) (Some 20) None None) =
     Failure 500 ''Server error while fetching comments''
   \<and> likeDistribution (Likes exampleDB) COMMENT 2 =
       [(''FL'', 0), (''L'', 0), (''SL'', 0), (''M'', 0), (''SR'', 0), (''R'', 0), (''FR'', 0)]"
proof (intro conjI)
  have "postExists exampleDB 1" by (simp add: postExists_def example_rows)
  then show "fst (getComments tableOrder exampleDB 1 (Some 1) (Some 20) None None) =
     Failure 500 ''Server error while fetching comments''"
    by (rule getComments_existing_post)
  show "likeDistribution (Likes exampleDB) COMMENT 2 =
       [(''FL'', 0), (''L'', 0), (''SL'', 0), (''M'', 0), (''SR'', 0), (''R'', 0), (''FR'', 0)]"
    by (rule example_distributions)
qed

section \<open>Sort policies\<close>

lemma js_or_int_pos: "1 \<le> n \<Longrightarrow> js_or_int (Some n) dflt = n"
  by (simp add: js_or_int_def)

lemma offset_nonneg: "1 \<le> page \<Longrightarrow> 1 \<le> limit \<Longrightarrow> \<not> (limit < 0 \<or> (page - 1) * limit < (0::int))"
  by (simp add: not_less)

lemma getPosts_page:
  assumes "1 \<le> page" and "1 \<le> limit"
  shows "getPosts tie d (Some page) (Some limit) q_sortBy =
     (Success 200
        \<lparr>pp_currentPage = page,
         pp_totalPages = js_ceil_div (int (length (PostsData d))) limit,
         pp_totalPosts = int (length (PostsData d)),
         pp_postsPerPage = limit, pp_sortBy = js_or_str q_sortBy ''recent'',
         pp_posts = map (postView d)
           (take (nat limit) (drop (nat ((page - 1) * limit))
              (orderedPosts tie d (postOrderOf (js_or_str q_sortBy ''recent'')))))\<rparr>,
      SelectPostsPage (postOrderOf (js_or_str q_sortBy ''recent'')) limit ((page - 1) * limit)
        # map (\<lambda>row. SelectLikeCounts POST (p_postID (fst row)))
            (take (nat limit) (drop (nat ((page - 1) * limit))
              (orderedPosts tie d (postOrderOf (js_or_str q_sortBy ''recent'')))))
        @ [SelectCountPosts])"
  using offset_nonneg [OF assms]
  by (simp add: getPosts_def Let_def js_or_int_pos [OF assms(1)] js_or_int_pos [OF assms(2)]
        selectPostsPage_def)

lemma example_recent:
  "orderedPosts tie exampleDB ByRecent = [(post3, janedoe), (post2, mark123), (post1, johndoe)]"
  by (simp add: orderedPosts_def joinUsers_def example_rows)

text \<open>
  C3, as stated, fails. The responses of \<^verbatim>\<open>getPosts\<close> to sortBy = "xyz" and to sortBy =
  "recent" are not the same: the field \<^verbatim>\<open>sortBy\<close> of each repeats the request's string.
  And \<^verbatim>\<open>getComments\<close> with sortBy = "xyz" is answered with status 500, an error.
\<close>

theorem unknown_sort_policy_differs:
  "fst (getPosts tableOrder exampleDB (Some 1) (Some 2) (Some ''xyz''))
     \<noteq> fst (getPosts tableOrder exampleDB (Some 1) (Some 2) (Some ''recent''))
   \<and> fst (getComments tableOrder exampleDB 1 (Some 1) (Some 2) (Some ''xyz'') None) =
       Failure 500 ''Server error while fetching comments''"
proof (intro conjI)
  have one: "(1::int) \<le> 1" and two: "(1::int) \<le> 2" by simp_all
  show "fst (getPosts tableOrder exampleDB (Some 1) (Some 2) (Some ''xyz''))
     \<noteq> fst (getPosts tableOrder exampleDB (Some 1) (Some 2) (Some ''recent''))"
    by (simp add: getPosts_page [OF one two] js_or_str_def)
  have "postExists exampleDB 1" by (simp add: postExists_def example_rows)
  then show "fst (getComments tableOrder exampleDB 1 (Some 1) (Some 2) (Some ''xyz'') None) =
       Failure 500 ''Server error while fetching comments''"
    by (rule getComments_existing_post)
qed

text \<open>
  C3, amended. With a sortBy string that the \<^verbatim>\<open>switch\<close> of \<^verbatim>\<open>getPosts\<close> does not list,
  the listing of posts issues the queries and returns the response of the same request
  with sortBy = "recent", for every page, limit and storage (and the same order of equal
  dates by the engine), but for the field \<^verbatim>\<open>sortBy\<close>, in which the response repeats the
  request's own string. For a page and a limit of at least 1 that response is a success:
  status 200, the posts from the offset (page - 1) * limit on, at most limit of them, in
  the order of \<^verbatim>\<open>datePosted\<close> descending, with the number of posts and of pages.
\<close>

theorem unknown_post_sort_policy_is_recent:
  assumes "s \<notin> {''recent'', ''balanced'', ''controversial'', ''right'', ''left'', ''moderate''}"
  shows "getPosts tie d q_page q_limit (Some s) =
           withSortBy (if s = [] then ''recent'' else s) (getPosts tie d q_page q_limit (Some ''recent''))
     \<and> (1 \<le> page \<and> 1 \<le> limit \<longrightarrow>
          getPosts tie d (Some page) (Some limit) (Some s) =
            (Success 200
               \<lparr>pp_currentPage = page,
                pp_totalPages = js_ceil_div (int (length (PostsData d))) limit,
                pp_totalPosts = int (length (PostsData d)),
                pp_postsPerPage = limit, pp_sortBy = (if s = [] then ''recent'' else s),
                pp_posts = map (postView d)
                  (take (nat limit) (drop (nat ((page - 1) * limit)) (orderedPosts tie d ByRecent)))\<rparr>,
             SelectPostsPage ByRecent limit ((page - 1) * limit)
               # map (\<lambda>row. SelectLikeCounts POST (p_postID (fst row)))
                   (take (nat limit) (drop (nat ((page - 1) * limit)) (orderedPosts tie d ByRecent)))
               @ [SelectCountPosts]))"
proof (intro conjI impI)
  from assms have o: "postOrderOf s = ByRecent" "postOrderOf ''recent'' = ByRecent"
    by (simp_all add: postOrderOf_def)
  show "getPosts tie d q_page q_limit (Some s) =
        withSortBy (if s = [] then ''recent'' else s) (getPosts tie d q_page q_limit (Some ''recent''))"
    by (simp add: getPosts_def Let_def js_or_str_def o withSortBy_def)
  assume "1 \<le> page \<and> 1 \<le> limit"
  then have p: "1 \<le> page" and l: "1 \<le> limit" by simp_all
  show "getPosts tie d (Some page) (Some limit) (Some s) =
            (Success 200
               \<lparr>pp_currentPage = page,
                pp_totalPages = js_ceil_div (int (length (PostsData d))) limit,
                pp_totalPosts = int (length (PostsData d)),
                pp_postsPerPage = limit, pp_sortBy = (if s = [] then ''recent'' else s),
                pp_posts = map (postView d)
                  (take (nat limit) (drop (nat ((page - 1) * limit)) (orderedPosts tie d ByRecent)))\<rparr>,
             SelectPostsPage ByRecent limit ((page - 1) * limit)
               # map (\<lambda>row. SelectLikeCounts POST (p_postID (fst row)))
                   (take (nat limit) (drop (nat ((page - 1) * limit)) (orderedPosts tie d ByRecent)))
               @ [SelectCountPosts])"
    by (simp add: getPosts_page [OF p l] js_or_str_def o)
qed

theorem unknown_post_sort_policy_is_recent_witness:
  "getPosts tableOrder exampleDB (Some 1) (Some 2) (Some ''xyz'') =
     withSortBy ''xyz'' (getPosts tableOrder exampleDB (Some 1) (Some 2) (Some ''recent''))
   \<and> map pv_postID (pagePosts (getPosts tableOrder exampleDB (Some 1) (Some 2) (Some ''xyz''))) = [3, 2]"
proof -
  have s: "''xyz'' \<notin> {''recent'', ''balanced'', ''controversial'', ''right'', ''left'', ''moderate''}"
    by simp
  note inst = unknown_post_sort_policy_is_recent [OF s, of tableOrder exampleDB "Some 1" "Some 2" 1 2]
  from inst have a: "getPosts tableOrder exampleDB (Some 1) (Some 2) (Some ''xyz'') =
     withSortBy ''xyz'' (getPosts tableOrder exampleDB (Some 1) (Some 2) (Some ''recent''))"
    by simp
  have pl: "(1::int) \<le> 1 \<and> (1::int) \<le> 2" by simp
  note e = inst [THEN conjunct2, THEN mp, OF pl]
  have "pagePosts (getPosts tableOrder exampleDB (Some 1) (Some 2) (Some ''xyz'')) =
      map (postView exampleDB) (take (nat 2) (drop (nat ((1 - 1) * 2)) (orderedPosts tableOrder exampleDB ByRecent)))"
    unfolding e by (simp add: pagePosts_def)
  then have b: "map pv_postID (pagePosts (getPosts tableOrder exampleDB (Some 1) (Some 2) (Some ''xyz''))) = [3, 2]"
    by (simp add: example_recent postView_postID example_rows)
  from a b show ?thesis by simp
qed

section \<open>Comments\<close>

text \<open>
  C8. A comment-listing request whose postID is not the postID of a row of PostsData
  fails with status 404 "Post not found", whatever its page, limit, sortBy and parentID;
  the existence query is the only query issued: no comment is selected, ordered, counted
  or aggregated.
\<close>

theorem getComments_unknown_post:
  assumes "postID \<notin> set (map p_postID (PostsData d))"
  shows "getComments tie d postID q_page q_limit q_sortBy q_parentID =
           (Failure 404 ''Post not found'', [SelectPostExists postID])"
proof -
  have "filter (\<lambda>p. p_postID p = postID) (PostsData d) = []"
    using assms by (auto simp: filter_empty_conv)
  then show ?thesis by (simp add: getComments_def postExists_def)
qed

theorem getComments_unknown_post_witness:
  "getComments tableOrder exampleDB 7 (Some 1) (Some 20) (Some ''oldest'') None =
     (Failure 404 ''Post not found'', [SelectPostExists 7])"
  using getComments_unknown_post [of 7 exampleDB tableOrder "Some 1" "Some 20" "Some ''oldest''" None]
  by (simp add: example_rows)

text \<open>
  The handler refuses a request without a body or without any parent before it calls
  the procedure. A request that gives exactly one of postID and parentCommentID leaves
  the ENUM or the username of the procedure NULL, and the procedure ends in an error
  whatever the conversions: the handler answers 500. What it accepts gave both.
\<close>

lemma addComment_no_parent:
  assumes "body \<noteq> None" and "body \<noteq> Some []"
    and "postID = None \<or> postID = Some 0"
    and "parentCommentID = None \<or> parentCommentID = Some 0"
  shows "addComment asEnum asInt asVarchar d lastInsertId username postID body parentCommentID =
           (Failure 400 ''Either postID or parentCommentID must be provided'', [])"
  using assms by (auto simp: addComment_def js_or_str_def js_or_null_def)

lemma insertComment_one_parent:
  assumes "(arg1 = None) \<noteq> (arg3 = None)"
  shows "\<exists>err. insertComment asEnum asInt asVarchar d arg1 arg2 arg3 arg4 = Inl err"
  using assms
  by (auto simp: insertComment_def Let_def split: option.splits sum.splits)

lemma addComment_one_parent:
  assumes "js_or_str body [] \<noteq> []"
    and "(js_or_null postID = None) \<noteq> (js_or_null parentCommentID = None)"
  shows "addComment asEnum asInt asVarchar d lastInsertId username postID body parentCommentID =
           (Failure 500 ''Server error while adding comment'',
            [CallInsertComment (js_or_null postID) username (js_or_null parentCommentID)
               (js_or_str body [])])"
proof -
  from insertComment_one_parent [OF assms(2)] obtain err where
    "insertComment asEnum asInt asVarchar d (js_or_null postID) username
       (js_or_null parentCommentID) (js_or_str body []) = Inl err"
    by blast
  then show ?thesis using assms by (auto simp: addComment_def Let_def)
qed

lemma addComment_accepted_gave_both:
  assumes "addComment asEnum asInt asVarchar d lastInsertId username postID body parentCommentID
             = (Success code commentID, calls)"
  shows "js_or_null postID \<noteq> None \<and> js_or_null parentCommentID \<noteq> None"
proof (rule ccontr)
  assume n: "\<not> (js_or_null postID \<noteq> None \<and> js_or_null parentCommentID \<noteq> None)"
  have b: "js_or_str body [] \<noteq> []" using assms by (auto simp: addComment_def split: if_splits)
  have "\<not> (js_or_null postID = None \<and> js_or_null parentCommentID = None)"
    using assms b by (auto simp: addComment_def split: if_splits)
  with n have "(js_or_null postID = None) \<noteq> (js_or_null parentCommentID = None)" by auto
  from addComment_one_parent [OF b this] assms show False by simp
qed


section \<open>Derived metrics of a listed post\<close>

lemma count_partition:
  "(\<Sum>p\<leftarrow>[FL, L, SL, M, SR, R, FR]. int (length (filter (\<lambda>l. l_polLean l = p) xs))) = int (length xs)"
proof (induction xs)
  case Nil
  then show ?case by simp
next
  case (Cons a xs)
  then show ?case by (cases "l_polLean a") simp_all
qed

lemma countAll_sum:
  "countLean ls t e FL + countLean ls t e L + countLean ls t e SL + countLean ls t e M
     + countLean ls t e SR + countLean ls t e R + countLean ls t e FR = countAll ls t e"
  using count_partition [of "likesOfEntity ls t e"] by (simp add: countLean_def countAll_def)

lemma postView_metrics:
  fixes d row
  defines "c \<equiv> countLean (Likes d) POST (p_postID (fst row))"
  shows "pv_likes (postView d row) =
           [(''FL'', c FL), (''L'', c L), (''SL'', c SL), (''M'', c M), (''SR'', c SR),
            (''R'', c R), (''FR'', c FR)]"
    and "pv_rightLikes (postView d row) = Some (c FR + c R + c SR)"
    and "pv_leftLikes (postView d row) = Some (c FL + c L + c SL)"
    and "pv_moderateLikes (postView d row) = Some (c M)"
    and "pv_totalLikes (postView d row) = c FL + c L + c SL + c M + c SR + c R + c FR"
    and "pv_polarizationScore (postView d row) = Some \<bar>(c FR + c R + c SR) - (c FL + c L + c SL)\<bar>"
  by (simp_all add: postView_def Let_def likeDistribution_eq js_prop_def js_add_def js_sub_def
        js_abs_def sumValues_def c_def)

text \<open>
  C2. For every post in a response of \<^verbatim>\<open>getPosts\<close>, with FL, L, SL, M, SR, R, FR the
  values of its like distribution: rightLikes = FR + R + SR, leftLikes = FL + L + SL,
  moderateLikes = M, totalLikes is the sum of the seven values, polarizationScore =
  |rightLikes - leftLikes|, and rightLikes + leftLikes + moderateLikes = totalLikes.
  All of them are numbers (none is NaN), and totalLikes is the number of Likes rows
  stored for the post.
\<close>

theorem derived_scalars_of_listed_posts:
  "\<forall>p \<in> set (pagePosts (getPosts tie d q_page q_limit q_sortBy)).
     \<exists>fl l sl m sr r fr.
       pv_likes p = [(''FL'', fl), (''L'', l), (''SL'', sl), (''M'', m), (''SR'', sr), (''R'', r), (''FR'', fr)]
       \<and> pv_rightLikes p = Some (fr + r + sr)
       \<and> pv_leftLikes p = Some (fl + l + sl)
       \<and> pv_moderateLikes p = Some m
       \<and> pv_totalLikes p = fl + l + sl + m + sr + r + fr
       \<and> pv_polarizationScore p = Some \<bar>(fr + r + sr) - (fl + l + sl)\<bar>
       \<and> (fr + r + sr) + (fl + l + sl) + m = pv_totalLikes p
       \<and> pv_totalLikes p = countAll (Likes d) POST (pv_postID p)"
proof
  fix p assume "p \<in> set (pagePosts (getPosts tie d q_page q_limit q_sortBy))"
  then obtain row where p: "p = postView d row"
    by (auto simp: pagePosts_getPosts split: if_splits)
  define c where "c = countLean (Likes d) POST (p_postID (fst row))"
  note m = postView_metrics [of d row, folded c_def]
  have t: "c FL + c L + c SL + c M + c SR + c R + c FR = countAll (Likes d) POST (pv_postID p)"
    unfolding c_def p postView_postID by (rule countAll_sum)
  show "\<exists>fl l sl m sr r fr.
       pv_likes p = [(''FL'', fl), (''L'', l), (''SL'', sl), (''M'', m), (''SR'', sr), (''R'', r), (''FR'', fr)]
       \<and> pv_rightLikes p = Some (fr + r + sr)
       \<and> pv_leftLikes p = Some (fl + l + sl)
       \<and> pv_moderateLikes p = Some m
       \<and> pv_totalLikes p = fl + l + sl + m + sr + r + fr
       \<and> pv_polarizationScore p = Some \<bar>(fr + r + sr) - (fl + l + sl)\<bar>
       \<and> (fr + r + sr) + (fl + l + sl) + m = pv_totalLikes p
       \<and> pv_totalLikes p = countAll (Likes d) POST (pv_postID p)"
    apply (rule exI [of _ "c FL"], rule exI [of _ "c L"], rule exI [of _ "c SL"],
        rule exI [of _ "c M"], rule exI [of _ "c SR"], rule exI [of _ "c R"], rule exI [of _ "c FR"])
    using t by (simp add: p m)
qed

theorem derived_scalars_of_listed_posts_witness:
  "pv_likes (postView exampleDB (post1, johndoe)) =
     [(''FL'', 0), (''L'', 1), (''SL'', 0), (''M'', 0), (''SR'', 0), (''R'', 1), (''FR'', 0)]
   \<and> pv_rightLikes (postView exampleDB (post1, johndoe)) = Some 1
   \<and> pv_leftLikes (postView exampleDB (post1, johndoe)) = Some 1
   \<and> pv_moderateLikes (postView exampleDB (post1, johndoe)) = Some 0
   \<and> pv_totalLikes (postView exampleDB (post1, johndoe)) = 2
   \<and> pv_polarizationScore (postView exampleDB (post1, johndoe)) = Some 0"
proof -
  have pg: "pagePosts (getPosts tableOrder exampleDB (Some 2) (Some 2) None) = [postView exampleDB (post1, johndoe)]"
    by (simp add: pagePosts_getPosts js_or_int_def js_or_str_def postOrderOf_def selectPostsPage_def
        example_recent)
  have l: "pv_likes (postView exampleDB (post1, johndoe)) =
     [(''FL'', 0), (''L'', 1), (''SL'', 0), (''M'', 0), (''SR'', 0), (''R'', 1), (''FR'', 0)]"
    by (simp add: postView_likes postView_postID example_posts example_distributions)
  show ?thesis
    using derived_scalars_of_listed_posts [of tableOrder exampleDB "Some 2" "Some 2" None] l
    by (auto simp: pg)
qed

section \<open>Pagination\<close>

lemma js_ceil_div_ceiling:
  "js_ceil_div a b = \<lceil>real_of_int a / real_of_int b\<rceil>"
proof -
  have "\<lfloor>real_of_int (- a) / real_of_int b\<rfloor> = (- a) div b"
    by (rule floor_divide_of_int_eq)
  then show ?thesis by (simp add: js_ceil_div_def ceiling_def)
qed

lemma js_ceil_div_bound:
  assumes "0 < b" and "0 \<le> a"
  shows "a \<le> js_ceil_div a b * b" and "0 \<le> js_ceil_div a b"
proof -
  have "(- a) div b * b \<le> - a"
    using assms(1) by (metis div_mult_mod_eq add.commute le_add_same_cancel2 pos_mod_sign)
  then show "a \<le> js_ceil_div a b * b" by (simp add: js_ceil_div_def)
  have "(- a) div b \<le> 0" using assms by (simp add: div_nonpos_pos_le0)
  then show "0 \<le> js_ceil_div a b" by (simp add: js_ceil_div_def)
qed

lemma paginate_concat:
  assumes "0 < l"
  shows "concat (map (\<lambda>k. take l (drop (k * l) xs)) [0..<n]) = take (n * l) xs"
proof (induction n)
  case 0
  then show ?case by simp
next
  case (Suc n)
  have "take (n * l) xs @ take l (drop (n * l) xs) = take (n * l + l) xs"
    by (simp add: take_add)
  then show ?case using Suc by (simp add: add.commute)
qed

lemma upto_from_1: "[1..int m] = map (\<lambda>i. int i + 1) [0..<m]"
proof (induction m)
  case 0
  then show ?case by simp
next
  case (Suc m)
  have "[1..int (Suc m)] = [1..int m] @ [int m + 1]"
    using upto_rec2 [of 1 "int (Suc m)"] by (simp add: add.commute)
  then show ?case using Suc by simp
qed

lemma pages_concat:
  assumes l: "1 \<le> limit" and n: "0 \<le> n" and len: "int (length xs) \<le> n * limit"
  shows "concat (map (\<lambda>k. take (nat limit) (drop (nat ((k - 1) * limit)) xs)) [1..n]) = xs"
proof -
  have off: "nat (int i * limit) = i * nat limit" for i
    by (simp add: nat_mult_distrib)
  have "[1..n] = map (\<lambda>i. int i + 1) [0..<nat n]"
    using upto_from_1 [of "nat n"] n by simp
  then have "concat (map (\<lambda>k. take (nat limit) (drop (nat ((k - 1) * limit)) xs)) [1..n])
      = concat (map (\<lambda>i. take (nat limit) (drop (i * nat limit) xs)) [0..<nat n])"
    by (simp add: comp_def off)
  also have "\<dots> = take (nat n * nat limit) xs"
    using l by (intro paginate_concat) simp
  also have "\<dots> = xs"
  proof -
    have "nat n * nat limit = nat (n * limit)" using n by (simp add: nat_mult_distrib)
    then show ?thesis using len by simp
  qed
  finally show ?thesis .
qed

lemma filter_key_single:
  "distinct (map f xs) \<Longrightarrow> k \<in> set (map f xs) \<Longrightarrow> \<exists>x. filter (\<lambda>u. k = f u) xs = [x]"
proof (induction xs)
  case Nil
  then show ?case by simp
next
  case (Cons a xs)
  show ?case
  proof (cases "k = f a")
    case True
    with Cons.prems have "filter (\<lambda>u. k = f u) xs = []"
      by (auto simp: filter_empty_conv)
    with True show ?thesis by simp
  next
    case False
    with Cons show ?thesis by auto
  qed
qed

lemma joinUsers_fst:
  assumes "distinct (map u_username users)"
    and "\<forall>r \<in> set rows. uname r \<in> set (map u_username users)"
  shows "map fst (joinUsers uname rows users) = rows"
  using assms(2)
proof (induction rows)
  case Nil
  then show ?case by (simp add: joinUsers_def)
next
  case (Cons r rows)
  from filter_key_single [OF assms(1), of "uname r"] Cons.prems
  obtain x where "filter (\<lambda>u. uname r = u_username u) users = [x]" by auto
  moreover have "map fst (joinUsers uname rows users) = rows" using Cons by simp
  ultimately show ?case by (simp add: joinUsers_def)
qed

lemma orderedPosts_perm:
  assumes "constraints d"
  shows "mset (map fst (orderedPosts tie d order)) = mset (PostsData d)"
proof -
  have "map fst (joinUsers p_username (PostsData d) (Users d)) = PostsData d"
    using assms by (intro joinUsers_fst) (simp_all add: constraints_def)
  then have "mset (map fst (joinUsers p_username (PostsData d) (Users d))) = mset (PostsData d)"
    by simp
  then show ?thesis by (simp add: orderedPosts_def)
qed

lemma sorted_by_first_key:
  "sorted (map (\<lambda>r. (k r, t r)) xs) \<Longrightarrow> sorted (map k xs)"
  by (induction xs) (auto simp: less_eq_prod_def)

lemma orderedPosts_sorted: "sorted (map (postSortKey d order) (orderedPosts tie d order))"
  unfolding orderedPosts_def by (rule sorted_by_first_key) (rule sorted_sort_key)

lemma insort_key_tie:
  "k x \<notin> k ` set ys \<Longrightarrow> insort_key (\<lambda>r. (k r, t r)) x ys = insort_key k x ys"
  by (induction ys) (auto simp: less_eq_prod_def)

lemma sort_key_tie:
  "distinct (map k xs) \<Longrightarrow> sort_key (\<lambda>r. (k r, t r)) xs = sort_key k xs"
proof (induction xs)
  case Nil
  then show ?case by simp
next
  case (Cons x xs)
  then have "k x \<notin> k ` set (sort_key k xs)" by simp
  then show ?case using Cons by (simp add: insort_key_tie)
qed

lemma orderedPosts_noTies:
  assumes "noTies d order"
  shows "orderedPosts tie d order = orderedPosts tie' d order"
  using assms by (simp add: orderedPosts_def noTies_def sort_key_tie)

lemma allPostPages_eq:
  assumes l: "1 \<le> limit" and c: "constraints d"
    and n: "noTies d (postOrderOf (js_or_str q_sortBy ''recent''))"
  shows "allPostPages ties d limit q_sortBy =
           map (postView d) (orderedPosts tie d (postOrderOf (js_or_str q_sortBy ''recent'')))"
proof -
  let ?xs = "orderedPosts tie d (postOrderOf (js_or_str q_sortBy ''recent''))"
  let ?n = "js_ceil_div (int (length (PostsData d))) limit"
  have "length (map fst ?xs) = length (PostsData d)"
    by (rule mset_eq_length [OF orderedPosts_perm [OF c]])
  then have len: "length ?xs = length (PostsData d)" by (simp only: length_map)
  have pg: "pagePosts (getPosts (ties k) d (Some k) (Some limit) q_sortBy)
          = map (postView d) (take (nat limit) (drop (nat ((k - 1) * limit)) ?xs))"
    if "k \<in> set [1..?n]" for k
    using that l orderedPosts_noTies [OF n, of "ties k" tie]
    by (simp add: getPosts_page pagePosts_def)
  have "allPostPages ties d limit q_sortBy
          = concat (map (\<lambda>k. map (postView d) (take (nat limit) (drop (nat ((k - 1) * limit)) ?xs))) [1..?n])"
    unfolding allPostPages_def by (rule arg_cong [where f = concat], rule map_cong [OF refl], rule pg)
  also have "\<dots> = map (postView d)
                (concat (map (\<lambda>k. take (nat limit) (drop (nat ((k - 1) * limit)) ?xs)) [1..?n]))"
    by (simp add: map_concat comp_def)
  also have "concat (map (\<lambda>k. take (nat limit) (drop (nat ((k - 1) * limit)) ?xs)) [1..?n]) = ?xs"
    using l js_ceil_div_bound [of limit "int (length (PostsData d))"]
    by (intro pages_concat) (simp_all add: len)
  finally show ?thesis .
qed

lemma postIDs_of_views: "map pv_postID (map (postView d) rows) = map p_postID (map fst rows)"
  by (simp add: postView_postID)

lemma tied_tables:
  "Users tiedDB = [janedoe, mark123, johndoe]" "PostsData tiedDB = [post3, post4]"
  "Likes tiedDB = []" "Comments tiedDB = []"
  "p_postID post4 = 4" "p_username post4 = ''mark123''" "p_datePosted post4 = 300"
  by (simp_all add: tiedDB_def post4_def)

lemma tied_orders:
  "orderedPosts post3First tiedDB ByRecent = [(post3, janedoe), (post4, mark123)]"
  "orderedPosts post4First tiedDB ByRecent = [(post4, mark123), (post3, janedoe)]"
  by (simp_all add: orderedPosts_def joinUsers_def tied_tables example_users example_posts
        post3First_def post4First_def)

text \<open>
  C4, as stated, fails. Posts 3 and 4 have the same \<^verbatim>\<open>datePosted\<close>. With a limit of 1,
  the query of page 1 may put post 3 first and the query of page 2 post 4 first: both
  pages then show post 3, and post 4 is on no page. And the listing of the comments of
  an existing post is answered with status 500, whatever the page and the limit.
\<close>

theorem pages_repeat_a_tied_post:
  "map pv_postID (allPostPages changingTies tiedDB 1 None) = [3, 3]
   \<and> map p_postID (PostsData tiedDB) = [3, 4]
   \<and> fst (getComments tableOrder exampleDB 1 (Some 1) (Some 2) None None) =
       Failure 500 ''Server error while fetching comments''"
proof (intro conjI)
  have one: "(1::int) \<le> 1" and two: "(1::int) \<le> 2" by simp_all
  have n: "js_ceil_div (int (length (PostsData tiedDB))) 1 = 2"
    by (simp add: js_ceil_div_def tied_tables)
  have o: "postOrderOf (js_or_str None ''recent'') = ByRecent"
    by (simp add: postOrderOf_def js_or_str_def)
  have p1: "pagePosts (getPosts post3First tiedDB (Some 1) (Some 1) None)
              = [postView tiedDB (post3, janedoe)]"
    by (simp add: getPosts_page [OF one one] pagePosts_def o tied_orders)
  have p2: "pagePosts (getPosts post4First tiedDB (Some 2) (Some 1) None)
              = [postView tiedDB (post3, janedoe)]"
    by (simp add: getPosts_page [OF two one] pagePosts_def o tied_orders)
  have u: "[1..2::int] = [1, 2]" by (simp add: upto.simps)
  show "map pv_postID (allPostPages changingTies tiedDB 1 None) = [3, 3]"
    by (simp add: allPostPages_def n u changingTies_def p1 p2 postView_postID example_posts)
  show "map p_postID (PostsData tiedDB) = [3, 4]"
    by (simp add: tied_tables example_posts)
  have "postExists exampleDB 1" by (simp add: postExists_def example_rows)
  then show "fst (getComments tableOrder exampleDB 1 (Some 1) (Some 2) None None) =
       Failure 500 ''Server error while fetching comments''"
    by (rule getComments_existing_post)
qed

text \<open>
  C4, amended. Let page and limit be at least 1 and the storage satisfy the key
  constraints of its schema. \<^verbatim>\<open>getPosts\<close> succeeds and returns the rows of an ordering of
  PostsData by the ORDER BY keys of the sort policy, from the zero-based offset
  (page - 1) * limit on, at most limit of them; totalPosts is the number of rows of
  PostsData, whatever the page, and totalPages is the ceiling of totalPosts / limit.
  When no two posts have equal ORDER BY keys under the policy, the pages 1 to
  totalPages, concatenated, are that ordering, however the engine treats each page
  query: every post of the table exactly once, none twice, totalPosts in all.
\<close>

theorem post_listing_pages:
  assumes "1 \<le> page" and "1 \<le> limit" and "constraints d"
  shows
    "(\<exists>r calls. getPosts tie d (Some page) (Some limit) q_sortBy = (Success 200 r, calls)
        \<and> pp_posts r = map (postView d)
              (take (nat limit) (drop (nat ((page - 1) * limit))
                 (orderedPosts tie d (postOrderOf (js_or_str q_sortBy ''recent'')))))
        \<and> length (pp_posts r) \<le> nat limit
        \<and> pp_totalPosts r = int (length (PostsData d))
        \<and> pp_totalPages r = \<lceil>real_of_int (pp_totalPosts r) / real_of_int limit\<rceil>)
     \<and> mset (map fst (orderedPosts tie d (postOrderOf (js_or_str q_sortBy ''recent''))))
          = mset (PostsData d)
     \<and> sorted (map (postSortKey d (postOrderOf (js_or_str q_sortBy ''recent'')))
          (orderedPosts tie d (postOrderOf (js_or_str q_sortBy ''recent''))))
     \<and> (noTies d (postOrderOf (js_or_str q_sortBy ''recent'')) \<longrightarrow>
          allPostPages ties d limit q_sortBy =
            map (postView d) (orderedPosts tie d (postOrderOf (js_or_str q_sortBy ''recent'')))
          \<and> mset (map pv_postID (allPostPages ties d limit q_sortBy)) = mset (map p_postID (PostsData d))
          \<and> distinct (map pv_postID (allPostPages ties d limit q_sortBy))
          \<and> length (allPostPages ties d limit q_sortBy) = length (PostsData d))"
proof (intro conjI impI)
  let ?xs = "orderedPosts tie d (postOrderOf (js_or_str q_sortBy ''recent''))"
  show "\<exists>r calls. getPosts tie d (Some page) (Some limit) q_sortBy = (Success 200 r, calls)
        \<and> pp_posts r = map (postView d) (take (nat limit) (drop (nat ((page - 1) * limit)) ?xs))
        \<and> length (pp_posts r) \<le> nat limit
        \<and> pp_totalPosts r = int (length (PostsData d))
        \<and> pp_totalPages r = \<lceil>real_of_int (pp_totalPosts r) / real_of_int limit\<rceil>"
    unfolding getPosts_page [OF assms(1,2)]
    by (intro exI conjI) (rule refl, simp_all add: js_ceil_div_ceiling)
  show perm: "mset (map fst ?xs) = mset (PostsData d)"
    by (rule orderedPosts_perm [OF assms(3)])
  show "sorted (map (postSortKey d (postOrderOf (js_or_str q_sortBy ''recent''))) ?xs)"
    by (rule orderedPosts_sorted)
  have ids: "mset (map p_postID (map fst ?xs)) = mset (map p_postID (PostsData d))"
    using perm by (metis mset_map)
  assume n: "noTies d (postOrderOf (js_or_str q_sortBy ''recent''))"
  show all: "allPostPages ties d limit q_sortBy = map (postView d) ?xs"
    by (rule allPostPages_eq [OF assms(2,3) n])
  show "mset (map pv_postID (allPostPages ties d limit q_sortBy)) = mset (map p_postID (PostsData d))"
    unfolding all postIDs_of_views by (rule ids)
  have "distinct (map p_postID (PostsData d))" using assms(3) by (simp add: constraints_def)
  then show "distinct (map pv_postID (allPostPages ties d limit q_sortBy))"
    unfolding all postIDs_of_views using mset_eq_imp_distinct_iff [OF ids] by simp
  show "length (allPostPages ties d limit q_sortBy) = length (PostsData d)"
    unfolding all using mset_eq_length [OF ids] by simp
qed

lemma example_constraints: "constraints exampleDB"
  by (simp add: constraints_def example_rows)

lemma example_right:
  "orderedPosts tie exampleDB ByRight = [(post2, mark123), (post1, johndoe), (post3, janedoe)]"
  by (simp add: orderedPosts_def joinUsers_def example_rows countLeans_def likesOfEntity_def)

lemma example_noTies: "noTies exampleDB ByRight"
  by (simp add: noTies_def joinUsers_def example_rows countLeans_def likesOfEntity_def)

theorem post_listing_pages_witness:
  "map pv_postID (pagePosts (getPosts tableOrder exampleDB (Some 2) (Some 2) (Some ''right''))) = [3]
   \<and> map pv_postID (allPostPages changingTies exampleDB 2 (Some ''right'')) = [2, 1, 3]"
proof -
  have a: "(1::int) \<le> 2" by simp
  have o: "postOrderOf (js_or_str (Some ''right'') ''recent'') = ByRight"
    by (simp add: postOrderOf_def js_or_str_def)
  note inst = post_listing_pages [OF a a example_constraints,
      of tableOrder "Some ''right''" changingTies]
  from inst have "\<exists>r calls. getPosts tableOrder exampleDB (Some 2) (Some 2) (Some ''right'') = (Success 200 r, calls)
        \<and> pp_posts r = map (postView exampleDB)
              (take (nat 2) (drop (nat ((2 - 1) * 2))
                 (orderedPosts tableOrder exampleDB (postOrderOf (js_or_str (Some ''right'') ''recent'')))))"
    by blast
  then have p1: "pagePosts (getPosts tableOrder exampleDB (Some 2) (Some 2) (Some ''right''))
                   = [postView exampleDB (post3, janedoe)]"
    by (auto simp: pagePosts_def o example_right)
  from inst example_noTies have p2: "allPostPages changingTies exampleDB 2 (Some ''right'') =
      map (postView exampleDB)
        (orderedPosts tableOrder exampleDB (postOrderOf (js_or_str (Some ''right'') ''recent'')))"
    unfolding o by blast
  show ?thesis
    unfolding p1 p2 o example_right
    by (simp add: postView_postID example_rows)
qed

end
